theory Spec2Isabelle
  imports Main "HOL-Library.Multiset"
begin

section \<open>github-release-notes: the block synthesis pipeline of \<^verbatim>\<open>src/gren.js\<close>\<close>

text \<open>
  A shallow embedding of \<^verbatim>\<open>src/gren.js\<close>. Conventions of the embedding:

  \<^item> A JavaScript object with known fields is a record; the fields carry the object's kind
    as a prefix, since several of the source's objects share \<^verbatim>\<open>name\<close>, \<^verbatim>\<open>id\<close> and \<^verbatim>\<open>body\<close>.
    A label object \<^verbatim>\<open>{name: s}\<close> is the string \<open>s\<close>.
  \<^item> \<^verbatim>\<open>null\<close> and \<^verbatim>\<open>undefined\<close> are \<open>None\<close>; truthiness is written out where the source
    tests a value (\<^verbatim>\<open>if (block.id)\<close>, \<^verbatim>\<open>!range[0].body\<close>, \<^verbatim>\<open>template.noLabel\<close>).
  \<^item> A date is the number of milliseconds that \<^verbatim>\<open>new Date(d)\<close> or \<^verbatim>\<open>Date.parse(d)\<close> yields
    for it, an \<open>int\<close>; \<^verbatim>\<open>new Date(0)\<close> is \<open>0\<close>.
  \<^item> An object used as a dictionary is an association list of its own keys in insertion
    order, which is the order of \<^verbatim>\<open>Object.keys\<close> for keys that are not array indices (these
    are enumerated first, numerically: that order is outside the model). Where the code
    reads a key before it uses the value, in \<^verbatim>\<open>filterMap[messageType]\<close> and in
    \<^verbatim>\<open>groups[labelName]\<close> of \<^verbatim>\<open>groupByLabel\<close>, the members that the object inherits from its
    prototype are modelled too. The group names of a custom mapping and the \<^verbatim>\<open>dataSource\<close>
    option are taken not to name an inherited member.
  \<^item> \<^verbatim>\<open>Array.prototype\<close> holds no element when a command starts. The code can put
    elements there (a first label named \<^verbatim>\<open>__proto__\<close> in \<^verbatim>\<open>groupByLabel\<close>); they are carried
    from one call of \<^verbatim>\<open>groupBy\<close> to the next, as the list \<open>proto\<close>.
  \<^item> A promise is the list of the effects performed so far, in order, with either the
    rejection reason (\<open>Inl\<close>) or the value (\<open>Inr\<close>). The effects recorded are the calls to
    the GitHub client, the write of the changelog file, \<^verbatim>\<open>console.warn\<close> and a rejected
    promise that nothing handles; \<^verbatim>\<open>console.log\<close> and the task spinner are not recorded.
    A rejected promise that nothing handles does not stop the run: the promise chain goes
    on, as it does with the \<^verbatim>\<open>es6-promise\<close> fallback and the Node versions of the time. (A
    Node version that ends the process on it does so only once the pending callbacks have
    run, so after the next stage has started.)
  \<^item> The modules \<^verbatim>\<open>./template\<close> and \<^verbatim>\<open>./utils\<close> are not part of the file: the functions
    of theirs that the code calls are fields of the record \<open>lib\<close>, a parameter of
    every function that needs one. The record also holds what depends on the version of
    JavaScript: the names of the members that an array inherits.
\<close>

subsection \<open>Data\<close>

record tag =
  tag_name :: string
  tag_sha :: string

record release =
  release_id :: int
  release_tag_name :: string
  release_name :: string
  release_published_at :: int
  release_body :: string

text \<open>An element of \<^verbatim>\<open>releaseDates\<close>: \<^verbatim>\<open>{id, name, date}\<close>, and the \<^verbatim>\<open>body\<close> that
  \<^verbatim>\<open>getIssueBlocks\<close> reads from it.\<close>

record point =
  point_id :: "int option"
  point_name :: "string option"
  point_date :: int
  point_body :: "string option"

text \<open>A range is the two-element slice \<^verbatim>\<open>[newer, older]\<close>, read as \<^verbatim>\<open>range[0]\<close> and
  \<^verbatim>\<open>range[1]\<close>.\<close>

type_synonym range = "point \<times> point"

subsection \<open>The date range builder\<close>

text \<open>\<^verbatim>\<open>releaseDates.sort(function(r1, r2) { return new Date(r2.date) - new Date(r1.date); })\<close>:
  descending by date; the sort is stable.\<close>

definition sortReleasesByDate :: "point list \<Rightarrow> point list" where
  "sortReleasesByDate releaseDates = sort_key (\<lambda>r. - point_date r) releaseDates"

text \<open>The point pushed when there is one release date: \<^verbatim>\<open>{id: 0, date: new Date(0)}\<close>.\<close>

definition dateZeroPoint :: point where
  "dateZeroPoint = \<lparr>point_id = Some 0, point_name = None, point_date = 0, point_body = None\<rparr>"

definition createReleaseRanges :: "point list \<Rightarrow> range list" where
  "createReleaseRanges releaseDates =
     (let sorted0 = sortReleasesByDate releaseDates;
          sortedReleaseDates =
            (if length sorted0 = 1 then sorted0 @ [dateZeroPoint] else sorted0)
      in map (\<lambda>i. (sortedReleaseDates ! i, sortedReleaseDates ! Suc i))
           [0 ..< length sortedReleaseDates - 1])"

subsection \<open>The tag selector\<close>

text \<open>The callback of \<^verbatim>\<open>tags.filter\<close> in \<^verbatim>\<open>getSelectedTags\<close>, with the array \<^verbatim>\<open>selectedTags\<close>
  that it extends as it goes: the first argument is \<^verbatim>\<open>selectedTags\<close>, the second the tags
  from the current index on. \<^verbatim>\<open>tags[index + 1]\<close> is truthy when it exists.\<close>

fun selectLoop :: "string list \<Rightarrow> tag list \<Rightarrow> tag list" where
  "selectLoop selectedTags [] = []"
| "selectLoop selectedTags (t # rest) =
     (let isSelectedTag = (tag_name t \<in> set selectedTags);
          selectedTags' =
            (if isSelectedTag \<and> length selectedTags = 1 \<and> rest \<noteq> []
             then selectedTags @ [tag_name (hd rest)] else selectedTags)
      in if isSelectedTag then t # selectLoop selectedTags' rest
         else selectLoop selectedTags' rest)"

text \<open>\<open>None\<close> is the \<^verbatim>\<open>false\<close> that the function returns for an empty request.\<close>

definition getSelectedTags :: "string list \<Rightarrow> tag list \<Rightarrow> tag list option" where
  "getSelectedTags optionTags tags =
     (if ''all'' \<in> set optionTags then Some tags
      else if optionTags = [] then None
      else Some (take 2 (selectLoop optionTags tags)))"

subsection \<open>Configuration, collaborators and effects\<close>

text \<open>\<^verbatim>\<open>options.groupBy\<close>: a falsy value, the string \<^verbatim>\<open>'label'\<close>, an object (its keys in
  order, each with its list of labels), or anything else, which is invalid.\<close>

datatype groupSpec =
    GroupByOff
  | GroupByLabel
  | GroupByMapping "(string \<times> string list) list"
  | GroupByInvalid

record templates =
  tpl_commit :: string
  tpl_label :: string
  tpl_issue :: string
  tpl_group :: string
  tpl_release :: string
  tpl_releaseSeparator :: string
  tpl_changelogTitle :: string
  tpl_noLabel :: "string option"

record options =
  opt_tags :: "string list"
  opt_changelogFilename :: string
  opt_dataSource :: string
  opt_onlyMilestones :: bool
  opt_milestoneMatch :: string
  opt_draft :: bool
  opt_prefix :: string
  opt_includeMessages :: string
  opt_prerelease :: bool
  opt_generate :: bool
  opt_override :: bool
  opt_ignoreLabels :: "string list"
  opt_ignoreIssuesWith :: "string list"
  opt_template :: templates
  opt_groupBy :: groupSpec

record issue =
  issue_pull_request :: bool
  issue_labels :: "string list"
  issue_milestone :: "string option"
  issue_title :: string
  issue_number :: nat
  issue_html_url :: string
  issue_closed_at :: int

record block =
  block_id :: "int option"
  block_release :: "string option"
  block_name :: string
  block_published_at :: int
  block_body :: string

record releaseOptions =
  ro_tag_name :: "string option"
  ro_name :: string
  ro_body :: string
  ro_draft :: bool
  ro_prerelease :: bool

text \<open>What a promise of the program can be rejected with: the strings and values that the
  code throws, the failures of the collaborators, and the two kinds of \<^verbatim>\<open>TypeError\<close> of the
  runtime: \<open>TypeError\<close> for reading a property of \<^verbatim>\<open>undefined\<close> or \<^verbatim>\<open>null\<close>, \<open>NotAFunction\<close>
  for using as a function a value that is not one.\<close>

datatype error =
    TypeError
  | NotAFunction
  | ApiError string
  | FileWriteError
  | InvalidGroupBy
  | NoReleases
  | ChangelogAlreadyExists
  | ThrownBlocks "block list"

datatype event =
    ListReleases
  | ListTags
  | GetCommit string
  | ListCommits int int
  | ListIssues int
  | CreateRelease releaseOptions
  | UpdateRelease int releaseOptions
  | WriteFile string string
  | ConsoleWarn string
  | UnhandledRejection error

type_synonym 'a promise = "event list \<times> (error + 'a)"

text \<open>The \<^verbatim>\<open>gren\<close> object: its options, and the answers of \<^verbatim>\<open>gren.repo\<close> and
  \<^verbatim>\<open>gren.issues\<close> to each request.\<close>

record gren =
  gren_options :: options
  repo_listReleases :: "error + release list"
  repo_listTags :: "error + tag list"
  repo_getCommit :: "string \<Rightarrow> error + int"
  repo_listCommits :: "int \<Rightarrow> int \<Rightarrow> error + string list"
  repo_createRelease :: "releaseOptions \<Rightarrow> error + release"
  repo_updateRelease :: "int \<Rightarrow> releaseOptions \<Rightarrow> error + release"
  issues_listIssues :: "int \<Rightarrow> error + issue list"

text \<open>\<^verbatim>\<open>fs\<close> and \<^verbatim>\<open>process.cwd()\<close>.\<close>

record filesystem =
  fs_cwd :: string
  fs_existsSync :: "string \<Rightarrow> bool"
  fs_writeFileSync :: "string \<Rightarrow> string \<Rightarrow> error option"

text \<open>The functions of \<^verbatim>\<open>./template\<close> and \<^verbatim>\<open>./utils\<close> that the code calls:
  \<^verbatim>\<open>template.generate\<close>, \<^verbatim>\<open>utils.formatDate\<close>, \<^verbatim>\<open>utils.isInRange\<close>, \<^verbatim>\<open>utils.sortObject\<close>.
  And \<open>lib_arrayMembers\<close>: the names of the members of \<^verbatim>\<open>Array.prototype\<close> that the version
  of JavaScript running the code has beyond those of \<open>arrayMemberNames\<close> below (\<^verbatim>\<open>includes\<close>,
  \<^verbatim>\<open>flat\<close>, \<^verbatim>\<open>at\<close> and so on, by version), all of them functions.\<close>

record lib =
  lib_generate :: "(string \<times> string) list \<Rightarrow> string \<Rightarrow> string"
  lib_formatDate :: "int \<Rightarrow> string"
  lib_isInRange :: "int \<Rightarrow> int \<Rightarrow> int \<Rightarrow> bool"
  lib_sortObject :: "(string \<times> string list) list \<Rightarrow> (string \<times> string list) list"
  lib_arrayMembers :: "string list"

text \<open>The object \<^verbatim>\<open>defaults\<close>, with \<^verbatim>\<open>tags\<close>, \<^verbatim>\<open>ignoreLabels\<close> and \<^verbatim>\<open>ignoreIssuesWith\<close> as the
  constructor leaves them (arrays), for the templates of \<^verbatim>\<open>templates.json\<close>.\<close>

definition defaults :: "templates \<Rightarrow> options" where
  "defaults templateConfig =
     \<lparr>opt_tags = [],
      opt_changelogFilename = ''CHANGELOG.md'',
      opt_dataSource = ''issues'',
      opt_onlyMilestones = False,
      opt_milestoneMatch = ''Release {{tag_name}}'',
      opt_draft = False,
      opt_prefix = [],
      opt_includeMessages = ''commits'',
      opt_prerelease = False,
      opt_generate = False,
      opt_override = False,
      opt_ignoreLabels = [],
      opt_ignoreIssuesWith = [],
      opt_template = templateConfig,
      opt_groupBy = GroupByOff\<rparr>"

definition resolve :: "'a \<Rightarrow> 'a promise" where
  "resolve x = ([], Inr x)"

definition reject :: "error \<Rightarrow> 'a promise" where
  "reject e = ([], Inl e)"

text \<open>\<^verbatim>\<open>p.then(f)\<close>: \<open>f\<close> runs on the value of \<open>p\<close>, after the effects of \<open>p\<close>; a rejection
  passes through.\<close>

definition andThen :: "'a promise \<Rightarrow> ('a \<Rightarrow> 'b promise) \<Rightarrow> 'b promise" where
  "andThen p f =
     (case p of
        (tr, Inl e) \<Rightarrow> (tr, Inl e)
      | (tr, Inr x) \<Rightarrow> (case f x of (tr', r) \<Rightarrow> (tr @ tr', r)))"

text \<open>A request to a collaborator: one effect, and the collaborator's answer.\<close>

definition request :: "event \<Rightarrow> error + 'a \<Rightarrow> 'a promise" where
  "request ev answer = ([ev], answer)"

text \<open>The first rejection of a list of results, or all their values.\<close>

fun firstError :: "(error + 'a) list \<Rightarrow> error + 'a list" where
  "firstError [] = Inr []"
| "firstError (Inl e # rs) = Inl e"
| "firstError (Inr x # rs) = (case firstError rs of Inl e \<Rightarrow> Inl e | Inr xs \<Rightarrow> Inr (x # xs))"

text \<open>\<^verbatim>\<open>Promise.all(ps)\<close>: every promise of the list has been started, so all their effects
  happen; the result is the values in order, or a rejection (here the first in the order
  of the list).\<close>

definition promiseAll :: "'a promise list \<Rightarrow> 'a list promise" where
  "promiseAll ps = (concat (map fst ps), firstError (map snd ps))"

subsection \<open>Strings\<close>

text \<open>\<^verbatim>\<open>xs.join(sep)\<close>.\<close>

fun join :: "string \<Rightarrow> string list \<Rightarrow> string" where
  "join sep [] = []"
| "join sep [x] = x"
| "join sep (x # y # ys) = x @ sep @ join sep (y # ys)"

text \<open>What string concatenation makes of a value that may be \<^verbatim>\<open>undefined\<close>.\<close>

definition jsString :: "string option \<Rightarrow> string" where
  "jsString v = (case v of None \<Rightarrow> ''undefined'' | Some s \<Rightarrow> s)"

text \<open>Truthiness of a string that may be absent, and of a number that may be \<^verbatim>\<open>null\<close>.\<close>

definition truthyString :: "string option \<Rightarrow> bool" where
  "truthyString v = (case v of None \<Rightarrow> False | Some s \<Rightarrow> s \<noteq> [])"

definition truthyNumber :: "int option \<Rightarrow> bool" where
  "truthyNumber v = (case v of None \<Rightarrow> False | Some n \<Rightarrow> n \<noteq> 0)"

definition digitChar :: "nat \<Rightarrow> char" where
  "digitChar d = char_of (48 + d)"

text \<open>The decimal digits of a number, as \<^verbatim>\<open>'#' + issue.number\<close> makes them.\<close>

function showNat :: "nat \<Rightarrow> string" where
  "showNat n = (if n < 10 then [digitChar n] else showNat (n div 10) @ [digitChar (n mod 10)])"
  by pat_completeness auto
termination
  by (relation "measure id") auto

declare showNat.simps [simp del]

text \<open>\<^verbatim>\<open>s.replace(pattern, replacement)\<close> with a string pattern: the first occurrence only.
  (The \<^verbatim>\<open>$\<close> sequences of a replacement string are not modelled.)\<close>

fun replaceFirst :: "string \<Rightarrow> string \<Rightarrow> string \<Rightarrow> string" where
  "replaceFirst pat rep [] = (if pat = [] then rep else [])"
| "replaceFirst pat rep (c # cs) =
     (if take (length pat) (c # cs) = pat then rep @ drop (length pat) (c # cs)
      else c # replaceFirst pat rep cs)"

text \<open>ASCII lower case, and \<^verbatim>\<open>message.match(/^merge/i)\<close> as a truth value.\<close>

definition lowerChar :: "char \<Rightarrow> char" where
  "lowerChar c =
     (let n = of_char c :: nat in if 65 \<le> n \<and> n \<le> 90 then char_of (n + 32) else c)"

definition matchMerge :: "string \<Rightarrow> bool" where
  "matchMerge message = (map lowerChar (take 5 message) = ''merge'')"

subsection \<open>Rendering\<close>

definition templateCommits :: "lib \<Rightarrow> gren \<Rightarrow> string \<Rightarrow> string" where
  "templateCommits l gren message =
     lib_generate l [(''message'', message)] (tpl_commit (opt_template (gren_options gren)))"

text \<open>\<^verbatim>\<open>if (!issue.labels.length && gren.options.template.noLabel) issue.labels.push(...)\<close>.
  The source does this in place, before every reading of the labels in \<^verbatim>\<open>templateLabels\<close>,
  \<^verbatim>\<open>groupByLabel\<close> and \<^verbatim>\<open>groupBy\<close>; doing it twice changes nothing, so the model
  applies it at each of these readings.\<close>

definition pushNoLabel :: "gren \<Rightarrow> issue \<Rightarrow> issue" where
  "pushNoLabel gren issue =
     (case tpl_noLabel (opt_template (gren_options gren)) of
        None \<Rightarrow> issue
      | Some noLabel \<Rightarrow>
          if issue_labels issue = [] \<and> noLabel \<noteq> []
          then issue\<lparr>issue_labels := [noLabel]\<rparr> else issue)"

definition templateLabels :: "lib \<Rightarrow> gren \<Rightarrow> issue \<Rightarrow> string" where
  "templateLabels l gren issue =
     concat (map (\<lambda>label. lib_generate l [(''label'', label)]
                    (tpl_label (opt_template (gren_options gren))))
       (filter (\<lambda>label. label \<notin> set (opt_ignoreLabels (gren_options gren)))
          (issue_labels (pushNoLabel gren issue))))"

definition templateIssue :: "lib \<Rightarrow> gren \<Rightarrow> issue \<Rightarrow> string" where
  "templateIssue l gren issue =
     lib_generate l
       [(''labels'', templateLabels l gren issue),
        (''name'', issue_title issue),
        (''text'', ''#'' @ showNat (issue_number issue)),
        (''url'', issue_html_url issue)]
       (tpl_issue (opt_template (gren_options gren)))"

text \<open>The arguments are the \<^verbatim>\<open>body\<close> computed in \<^verbatim>\<open>getIssueBlocks\<close>, which is \<^verbatim>\<open>false\<close>
  (\<open>None\<close>) or an array of strings, and \<^verbatim>\<open>range[0].body\<close>.\<close>

definition templateIssueBody :: "string list option \<Rightarrow> string option \<Rightarrow> string" where
  "templateIssueBody body rangeBody =
     (if (case body of None \<Rightarrow> False | Some lines \<Rightarrow> lines \<noteq> [])
      then join ''\<newline>'' (case body of None \<Rightarrow> [] | Some lines \<Rightarrow> lines)
      else if truthyString rangeBody then jsString rangeBody
      else ''*No changelog for this release.*'') @ ''\<newline>''"

definition templateGroups :: "lib \<Rightarrow> gren \<Rightarrow> (string \<times> string list) list \<Rightarrow> string list" where
  "templateGroups l gren groups =
     map (\<lambda>(group, items).
            lib_generate l [(''heading'', group)] (tpl_group (opt_template (gren_options gren)))
              @ ''\<newline>'' @ join ''\<newline>'' items)
       groups"

text \<open>A release of the API or a block, as \<^verbatim>\<open>templateReleases\<close> reads either: \<^verbatim>\<open>name\<close>,
  \<^verbatim>\<open>published_at\<close>, \<^verbatim>\<open>body\<close>.\<close>

type_synonym releaseLike = "string \<times> int \<times> string"

definition releaseFields :: "release \<Rightarrow> releaseLike" where
  "releaseFields r = (release_name r, release_published_at r, release_body r)"

definition blockFields :: "block \<Rightarrow> releaseLike" where
  "blockFields b = (block_name b, block_published_at b, block_body b)"

definition templateReleases :: "lib \<Rightarrow> gren \<Rightarrow> releaseLike list \<Rightarrow> string" where
  "templateReleases l gren releases =
     join (tpl_releaseSeparator (opt_template (gren_options gren)))
       (map (\<lambda>(name, published_at, body).
               lib_generate l
                 [(''release'', name), (''date'', lib_formatDate l published_at), (''body'', body)]
                 (tpl_release (opt_template (gren_options gren))))
          releases)"

subsection \<open>Commit bodies\<close>

text \<open>A callback that may throw, run over a list by \<^verbatim>\<open>filter\<close>: the first throw ends it.\<close>

fun filterE :: "('a \<Rightarrow> error + bool) \<Rightarrow> 'a list \<Rightarrow> error + 'a list" where
  "filterE p [] = Inr []"
| "filterE p (x # xs) =
     (case p x of
        Inl e \<Rightarrow> Inl e
      | Inr b \<Rightarrow>
          (case filterE p xs of
             Inl e \<Rightarrow> Inl e
           | Inr ys \<Rightarrow> Inr (if b then x # ys else ys)))"

text \<open>\<^verbatim>\<open>messages.length === 1 && messages.push(null)\<close>.\<close>

definition pushSentinel :: "string list \<Rightarrow> string option list" where
  "pushSentinel messages =
     (if length messages = 1 then map Some messages @ [None] else map Some messages)"

text \<open>The text of a message as a string or a property key: \<^verbatim>\<open>null\<close> gives \<^verbatim>\<open>'null'\<close>.\<close>

definition messageText :: "string option \<Rightarrow> string" where
  "messageText message = (case message of None \<Rightarrow> ''null'' | Some m \<Rightarrow> m)"

text \<open>The three functions of \<^verbatim>\<open>filterMap\<close>; \<^verbatim>\<open>message.match\<close> on \<^verbatim>\<open>null\<close> is a
  \<^verbatim>\<open>TypeError\<close>.\<close>

definition filterMerges :: "string option \<Rightarrow> error + bool" where
  "filterMerges message =
     (case message of None \<Rightarrow> Inl TypeError | Some m \<Rightarrow> Inr (matchMerge m))"

definition filterCommits :: "string option \<Rightarrow> error + bool" where
  "filterCommits message =
     (case message of None \<Rightarrow> Inl TypeError | Some m \<Rightarrow> Inr (\<not> matchMerge m))"

definition filterAll :: "string option \<Rightarrow> error + bool" where
  "filterAll message = Inr True"

text \<open>\<^verbatim>\<open>filterMap\<close> is an object literal, so \<^verbatim>\<open>filterMap[messageType]\<close> also finds the members
  of \<^verbatim>\<open>Object.prototype\<close>. Their names, in Node:\<close>

definition objectPrototypeNames :: "string list" where
  "objectPrototypeNames =
     [''constructor'', ''toString'', ''toLocaleString'', ''valueOf'',
      ''hasOwnProperty'', ''propertyIsEnumerable'', ''isPrototypeOf'',
      ''__lookupGetter__'', ''__lookupSetter__'',
      ''__defineGetter__'', ''__defineSetter__'', ''__proto__'']"

text \<open>What each of them gives, as a truth value, when it is called on \<^verbatim>\<open>filterMap\<close> with the
  message:
  \<^item> \<^verbatim>\<open>constructor\<close> (that is \<^verbatim>\<open>Object\<close>), \<^verbatim>\<open>toString\<close>, \<^verbatim>\<open>toLocaleString\<close> and \<^verbatim>\<open>valueOf\<close>
    return an object or a string that is not empty: truthy;
  \<^item> \<^verbatim>\<open>hasOwnProperty\<close> and \<^verbatim>\<open>propertyIsEnumerable\<close> tell whether the message is one of the
    three keys of \<^verbatim>\<open>filterMap\<close>;
  \<^item> \<^verbatim>\<open>isPrototypeOf\<close> is false of a value that is not an object;
  \<^item> \<^verbatim>\<open>__lookupGetter__\<close> and \<^verbatim>\<open>__lookupSetter__\<close> return a function for the one property
    with an accessor, \<^verbatim>\<open>__proto__\<close>, and \<^verbatim>\<open>undefined\<close> otherwise;
  \<^item> \<^verbatim>\<open>__defineGetter__\<close> and \<^verbatim>\<open>__defineSetter__\<close> throw a \<^verbatim>\<open>TypeError\<close>, their second
    argument not being a function;
  \<^item> \<^verbatim>\<open>__proto__\<close> is \<^verbatim>\<open>Object.prototype\<close>, truthy and not a function: calling it throws.\<close>

definition inheritedFilter :: "string \<Rightarrow> (string option \<Rightarrow> error + bool) option" where
  "inheritedFilter messageType =
     (if messageType \<in> set [''constructor'', ''toString'', ''toLocaleString'', ''valueOf'']
      then Some (\<lambda>message. Inr True)
      else if messageType \<in> set [''hasOwnProperty'', ''propertyIsEnumerable'']
      then Some (\<lambda>message. Inr (messageText message \<in> set [''merges'', ''commits'', ''all'']))
      else if messageType = ''isPrototypeOf''
      then Some (\<lambda>message. Inr False)
      else if messageType \<in> set [''__lookupGetter__'', ''__lookupSetter__'']
      then Some (\<lambda>message. Inr (messageText message = ''__proto__''))
      else if messageType \<in> set [''__defineGetter__'', ''__defineSetter__'', ''__proto__'']
      then Some (\<lambda>message. Inl NotAFunction)
      else None)"

text \<open>\<^verbatim>\<open>filterMap[messageType]\<close>: \<open>None\<close> when it is \<^verbatim>\<open>undefined\<close>.\<close>

definition filterMap :: "string \<Rightarrow> (string option \<Rightarrow> error + bool) option" where
  "filterMap messageType =
     (if messageType = ''merges'' then Some filterMerges
      else if messageType = ''commits'' then Some filterCommits
      else if messageType = ''all'' then Some filterAll
      else inheritedFilter messageType)"

text \<open>The callback of \<^verbatim>\<open>filter\<close> in \<^verbatim>\<open>generateCommitsBody\<close>.\<close>

definition includeMessage :: "gren \<Rightarrow> string option \<Rightarrow> error + bool" where
  "includeMessage gren message =
     (let messageType = opt_includeMessages (gren_options gren)
      in case filterMap messageType of
           Some f \<Rightarrow> f message
         | None \<Rightarrow> filterCommits message)"

definition generateCommitsBody :: "lib \<Rightarrow> gren \<Rightarrow> string list \<Rightarrow> error + string" where
  "generateCommitsBody l gren messages =
     (case filterE (includeMessage gren) (butlast (pushSentinel messages)) of
        Inl e \<Rightarrow> Inl e
      | Inr kept \<Rightarrow>
          Inr (join ''\<newline>'' (map (\<lambda>message. templateCommits l gren (messageText message)) kept)))"

subsection \<open>Issue filters\<close>

definition compareIssueLabels :: "string list \<Rightarrow> string list \<Rightarrow> bool" where
  "compareIssueLabels ignoreLabels labels =
     foldl (\<lambda>carry ignoredLabel. carry \<and> ignoredLabel \<notin> set labels) True ignoreLabels"

text \<open>\<^verbatim>\<open>&&\<close> binds tighter than \<^verbatim>\<open>||\<close>: the last conjunct of the source is
  \<^verbatim>\<open>!(onlyMilestones || (dataSource === 'milestones' && !issue.milestone))\<close>.\<close>

definition filterIssue :: "gren \<Rightarrow> issue \<Rightarrow> bool" where
  "filterIssue gren issue =
     (\<not> issue_pull_request issue \<and>
      compareIssueLabels (opt_ignoreIssuesWith (gren_options gren)) (issue_labels issue) \<and>
      \<not> (opt_onlyMilestones (gren_options gren) \<or>
         (opt_dataSource (gren_options gren) = ''milestones'' \<and> issue_milestone issue = None)))"

text \<open>\<^verbatim>\<open>issue.milestone.title\<close> on an issue without a milestone is a \<^verbatim>\<open>TypeError\<close>.\<close>

definition filterBlockIssue :: "lib \<Rightarrow> gren \<Rightarrow> range \<Rightarrow> issue \<Rightarrow> error + bool" where
  "filterBlockIssue l gren rng issue =
     (if opt_dataSource (gren_options gren) = ''milestones''
      then (case issue_milestone issue of
              None \<Rightarrow> Inl TypeError
            | Some title \<Rightarrow>
                Inr (replaceFirst ''{{tag_name}}'' (jsString (point_name (fst rng)))
                       (opt_milestoneMatch (gren_options gren)) = title))
      else Inr (lib_isInRange l (issue_closed_at issue)
                  (point_date (snd rng)) (point_date (fst rng))))"

subsection \<open>Grouping\<close>

text \<open>\<^verbatim>\<open>if (!groups[key]) groups[key] = []; groups[key].push(v)\<close>.\<close>

fun objPush :: "string \<Rightarrow> string \<Rightarrow> (string \<times> string list) list \<Rightarrow> (string \<times> string list) list" where
  "objPush key v [] = [(key, [v])]"
| "objPush key v ((k, vs) # rest) =
     (if k = key then (k, vs @ [v]) # rest else (k, vs) # objPush key v rest)"

text \<open>\<^verbatim>\<open>carry[key] = v\<close>.\<close>

fun objSet :: "string \<Rightarrow> 'v \<Rightarrow> (string \<times> 'v) list \<Rightarrow> (string \<times> 'v) list" where
  "objSet key v [] = [(key, v)]"
| "objSet key v ((k, w) # rest) =
     (if k = key then (k, v) # rest else (k, w) # objSet key v rest)"

text \<open>\<^verbatim>\<open>issue.labels[0].name\<close>, the second argument being the labels of the issue. On an empty
  array \<^verbatim>\<open>issue.labels[0]\<close> is the first element of \<^verbatim>\<open>Array.prototype\<close> when there is one, a
  string, whose \<^verbatim>\<open>name\<close> is \<^verbatim>\<open>undefined\<close> (as a key: \<^verbatim>\<open>'undefined'\<close>); it is \<^verbatim>\<open>undefined\<close>
  otherwise, and reading its \<^verbatim>\<open>name\<close> is a \<^verbatim>\<open>TypeError\<close>.\<close>

definition firstLabelName :: "string list \<Rightarrow> string list \<Rightarrow> error + string" where
  "firstLabelName proto labels =
     (case labels of
        labelName # others \<Rightarrow> Inr labelName
      | [] \<Rightarrow> if proto = [] then Inl TypeError else Inr ''undefined'')"

text \<open>The names of the members that every array inherits, whatever the version that runs
  this code: the functions of \<^verbatim>\<open>Array.prototype\<close> up to ECMAScript 2015 (the code uses its
  spread syntax), and those of \<^verbatim>\<open>Object.prototype\<close> that \<^verbatim>\<open>Array.prototype\<close> does not
  redefine. \<^verbatim>\<open>__proto__\<close>, which is not a function, and \<^verbatim>\<open>length\<close>, which is the array's own,
  are treated apart.\<close>

definition arrayMemberNames :: "string list" where
  "arrayMemberNames =
     [''constructor'', ''toString'', ''toLocaleString'', ''concat'', ''join'', ''pop'',
      ''push'', ''reverse'', ''shift'', ''slice'', ''sort'', ''splice'', ''unshift'',
      ''indexOf'', ''lastIndexOf'', ''every'', ''some'', ''forEach'', ''map'', ''filter'',
      ''reduce'', ''reduceRight'', ''copyWithin'', ''entries'', ''fill'', ''find'',
      ''findIndex'', ''keys'',
      ''valueOf'', ''hasOwnProperty'', ''isPrototypeOf'', ''propertyIsEnumerable'',
      ''__defineGetter__'', ''__defineSetter__'', ''__lookupGetter__'', ''__lookupSetter__'']"

text \<open>Whether a key is the index of an element of \<^verbatim>\<open>Array.prototype\<close> that is truthy (a string
  that is not empty).\<close>

definition inheritedElement :: "string list \<Rightarrow> string \<Rightarrow> bool" where
  "inheritedElement proto key =
     list_ex (\<lambda>i. key = showNat i \<and> proto ! i \<noteq> []) [0 ..< length proto]"

text \<open>\<^verbatim>\<open>if (!groups[labelName]) groups[labelName] = []; groups[labelName].push(v)\<close>, where
  \<^verbatim>\<open>groups\<close> is an array. The state is the own keys of \<^verbatim>\<open>groups\<close> other than \<^verbatim>\<open>length\<close>, with
  their arrays, and the elements of \<^verbatim>\<open>Array.prototype\<close>.
  \<^item> \<^verbatim>\<open>groups['__proto__']\<close> is \<^verbatim>\<open>Array.prototype\<close>, which is an array: \<open>v\<close> is pushed onto it.
  \<^item> \<^verbatim>\<open>groups['length']\<close> is a number: 0 is replaced by \<^verbatim>\<open>[]\<close>, which as a length is 0 again; a
    number has no \<^verbatim>\<open>push\<close>.
  \<^item> An own key holds an array: \<open>v\<close> is pushed onto it.
  \<^item> An inherited member is a function, an inherited element a string that is not empty:
    both are truthy and have no \<^verbatim>\<open>push\<close>.
  \<^item> Any other key is \<^verbatim>\<open>undefined\<close> and gets a new array.\<close>

definition groupsPush ::
  "lib \<Rightarrow> string \<Rightarrow> string \<Rightarrow> (string \<times> string list) list \<times> string list \<Rightarrow>
     error + (string \<times> string list) list \<times> string list"
where
  "groupsPush l labelName v state =
     (case state of
        (groups, proto) \<Rightarrow>
          if labelName = ''__proto__'' then Inr (groups, proto @ [v])
          else if labelName = ''length'' then Inl NotAFunction
          else if labelName \<in> set (map fst groups) then Inr (objPush labelName v groups, proto)
          else if labelName \<in> set arrayMemberNames \<or> labelName \<in> set (lib_arrayMembers l) \<or>
                  inheritedElement proto labelName
          then Inl NotAFunction
          else Inr (objPush labelName v groups, proto))"

text \<open>The body of \<^verbatim>\<open>issues.forEach\<close> in \<^verbatim>\<open>groupByLabel\<close>, from the current issue on, with the
  state reached so far.\<close>

fun groupByLabelLoop ::
  "lib \<Rightarrow> gren \<Rightarrow> issue list \<Rightarrow> (string \<times> string list) list \<times> string list \<Rightarrow>
     error + (string \<times> string list) list \<times> string list"
where
  "groupByLabelLoop l gren [] state = Inr state"
| "groupByLabelLoop l gren (issue # rest) state =
     (case firstLabelName (snd state) (issue_labels (pushNoLabel gren issue)) of
        Inl e \<Rightarrow> Inl e
      | Inr labelName \<Rightarrow>
          (case groupsPush l labelName (templateIssue l gren issue) state of
             Inl e \<Rightarrow> Inl e
           | Inr state' \<Rightarrow> groupByLabelLoop l gren rest state'))"

text \<open>\<^verbatim>\<open>groupByLabel\<close> starts from \<^verbatim>\<open>var groups = []\<close>; \<open>proto\<close> is what \<^verbatim>\<open>Array.prototype\<close> holds
  when it is called, and the result carries what it holds afterwards.\<close>

definition groupByLabel ::
  "lib \<Rightarrow> gren \<Rightarrow> string list \<Rightarrow> issue list \<Rightarrow> error + string list \<times> string list"
where
  "groupByLabel l gren proto issues =
     (case groupByLabelLoop l gren issues ([], proto) of
        Inl e \<Rightarrow> Inl e
      | Inr (groups, proto') \<Rightarrow> Inr (templateGroups l gren (lib_sortObject l groups), proto'))"

definition allLabels :: "(string \<times> string list) list \<Rightarrow> string list" where
  "allLabels mapping = foldl (\<lambda>carry (group, labels). carry @ labels) [] mapping"

text \<open>The callback of \<^verbatim>\<open>issues.filter\<close> in \<^verbatim>\<open>groupBy\<close>, for the group whose labels are
  \<open>groupLabels\<close>.\<close>

definition inGroup :: "gren \<Rightarrow> (string \<times> string list) list \<Rightarrow> string list \<Rightarrow> issue \<Rightarrow> bool" where
  "inGroup gren mapping groupLabels issue =
     list_ex (\<lambda>label.
        let isOtherLabel = (''...'' \<in> set groupLabels \<and> label \<notin> set (allLabels mapping))
        in label \<in> set groupLabels \<or> isOtherLabel)
       (issue_labels (pushNoLabel gren issue))"

text \<open>The array \<^verbatim>\<open>groupIssues\<close> of one group: the issues that the callback keeps, rendered.\<close>

definition groupIssues ::
  "lib \<Rightarrow> gren \<Rightarrow> (string \<times> string list) list \<Rightarrow> string list \<Rightarrow> issue list \<Rightarrow> string list"
where
  "groupIssues l gren mapping groupLabels issues =
     map (templateIssue l gren) (filter (inGroup gren mapping groupLabels) issues)"

text \<open>The second \<^verbatim>\<open>reduce\<close> of \<^verbatim>\<open>groupBy\<close>: the object \<^verbatim>\<open>groups\<close>.\<close>

definition customGroups ::
  "lib \<Rightarrow> gren \<Rightarrow> (string \<times> string list) list \<Rightarrow> issue list \<Rightarrow> (string \<times> string list) list"
where
  "customGroups l gren mapping issues =
     foldl (\<lambda>carry (group, groupLabels).
              if groupIssues l gren mapping groupLabels issues \<noteq> []
              then objSet group (groupIssues l gren mapping groupLabels issues) carry
              else carry)
       [] mapping"

text \<open>\<^verbatim>\<open>groupBy\<close>: only the grouping by label reads or changes \<^verbatim>\<open>Array.prototype\<close>.\<close>

definition groupBy ::
  "lib \<Rightarrow> gren \<Rightarrow> string list \<Rightarrow> issue list \<Rightarrow> error + string list \<times> string list"
where
  "groupBy l gren proto issues =
     (case opt_groupBy (gren_options gren) of
        GroupByOff \<Rightarrow> Inr (map (templateIssue l gren) issues, proto)
      | GroupByLabel \<Rightarrow> groupByLabel l gren proto issues
      | GroupByInvalid \<Rightarrow> Inl InvalidGroupBy
      | GroupByMapping mapping \<Rightarrow>
          Inr (templateGroups l gren (customGroups l gren mapping issues), proto))"

subsection \<open>Blocks\<close>

text \<open>\<^verbatim>\<open>gren.repo.listCommits({since, until, per_page: 100})\<close>, then \<^verbatim>\<open>commitMessages\<close>: the
  answer of the collaborator is taken as the list of the commits' messages.\<close>

definition getCommitsBetweenTwo :: "gren \<Rightarrow> int \<Rightarrow> int \<Rightarrow> string list promise" where
  "getCommitsBetweenTwo gren since until =
     request (ListCommits since until) (repo_listCommits gren since until)"

definition getCommitBlocks :: "lib \<Rightarrow> gren \<Rightarrow> range list \<Rightarrow> block list promise" where
  "getCommitBlocks l gren releaseRanges =
     promiseAll
       (map (\<lambda>rng.
          andThen (getCommitsBetweenTwo gren (point_date (snd rng)) (point_date (fst rng)))
            (\<lambda>commits.
               case generateCommitsBody l gren commits of
                 Inl e \<Rightarrow> reject e
               | Inr body \<Rightarrow>
                   resolve
                     \<lparr>block_id = point_id (fst rng),
                      block_release = point_name (fst rng),
                      block_name = opt_prefix (gren_options gren) @ jsString (point_name (fst rng)),
                      block_published_at = point_date (fst rng),
                      block_body = body @ ''\<newline>''\<rparr>))
          releaseRanges)"

text \<open>\<^verbatim>\<open>releaseRanges[releaseRanges.length - 1][1]\<close> on an empty array is a \<^verbatim>\<open>TypeError\<close>.\<close>

definition getClosedIssues :: "gren \<Rightarrow> range list \<Rightarrow> issue list promise" where
  "getClosedIssues gren releaseRanges =
     (if releaseRanges = [] then reject TypeError
      else
        andThen
          (request (ListIssues (point_date (snd (last releaseRanges))))
             (issues_listIssues gren (point_date (snd (last releaseRanges)))))
          (\<lambda>data. resolve (filter (filterIssue gren) data)))"

text \<open>The callback of \<^verbatim>\<open>releaseRanges.map\<close> in \<^verbatim>\<open>getIssueBlocks\<close>. The \<^verbatim>\<open>body\<close> of the source
  is \<^verbatim>\<open>(!range[0].body || override) && groupBy(gren, filteredIssues)\<close>: \<^verbatim>\<open>false\<close> when the
  left operand is, the array of \<^verbatim>\<open>groupBy\<close> otherwise.\<close>

definition issueBlock ::
  "lib \<Rightarrow> gren \<Rightarrow> issue list \<Rightarrow> string list \<Rightarrow> range \<Rightarrow> error + block \<times> string list"
where
  "issueBlock l gren issues proto rng =
     (case filterE (filterBlockIssue l gren rng) issues of
        Inl e \<Rightarrow> Inl e
      | Inr filteredIssues \<Rightarrow>
          (case (if \<not> truthyString (point_body (fst rng)) \<or> opt_override (gren_options gren)
                 then (case groupBy l gren proto filteredIssues of
                         Inl e \<Rightarrow> Inl e
                       | Inr (lines, proto') \<Rightarrow> Inr (Some lines, proto'))
                 else Inr (None, proto)) of
             Inl e \<Rightarrow> Inl e
           | Inr (body, proto') \<Rightarrow>
               Inr (\<lparr>block_id = point_id (fst rng),
                     block_release = point_name (fst rng),
                     block_name = opt_prefix (gren_options gren) @ jsString (point_name (fst rng)),
                     block_published_at = point_date (fst rng),
                     block_body = templateIssueBody body (point_body (fst rng))\<rparr>,
                    proto')))"

text \<open>\<^verbatim>\<open>releaseRanges.map\<close> with that callback: range after range, the first throw ends it.\<close>

fun issueBlocks ::
  "lib \<Rightarrow> gren \<Rightarrow> issue list \<Rightarrow> string list \<Rightarrow> range list \<Rightarrow> error + block list"
where
  "issueBlocks l gren issues proto [] = Inr []"
| "issueBlocks l gren issues proto (rng # rest) =
     (case issueBlock l gren issues proto rng of
        Inl e \<Rightarrow> Inl e
      | Inr (blk, proto') \<Rightarrow>
          (case issueBlocks l gren issues proto' rest of
             Inl e \<Rightarrow> Inl e
           | Inr blocks \<Rightarrow> Inr (blk # blocks)))"

definition getIssueBlocks :: "lib \<Rightarrow> gren \<Rightarrow> range list \<Rightarrow> block list promise" where
  "getIssueBlocks l gren releaseRanges =
     andThen (getClosedIssues gren releaseRanges)
       (\<lambda>issues.
          case issueBlocks l gren issues [] releaseRanges of
            Inl e \<Rightarrow> reject e
          | Inr blocks \<Rightarrow> resolve blocks)"

subsection \<open>Tags, dates and the pipeline\<close>

definition getListReleases :: "gren \<Rightarrow> release list promise" where
  "getListReleases gren = request ListReleases (repo_listReleases gren)"

text \<open>The second argument is \<^verbatim>\<open>releases\<close>, or \<open>None\<close> for the \<^verbatim>\<open>false\<close> that
  \<^verbatim>\<open>getReleaseBlocks\<close> passes when there is no release. The result pairs each tag with its
  \<^verbatim>\<open>releaseId\<close>.\<close>

definition getLastTags :: "gren \<Rightarrow> release list option \<Rightarrow> (tag \<times> int option) list promise" where
  "getLastTags gren releases =
     andThen (request ListTags (repo_listTags gren))
       (\<lambda>tags.
          resolve
            (map (\<lambda>t.
                    let tagRelease =
                          (case releases of
                             None \<Rightarrow> None
                           | Some rs \<Rightarrow>
                               (case filter (\<lambda>r. release_tag_name r = tag_name t) rs of
                                  [] \<Rightarrow> None
                                | r # _ \<Rightarrow> Some r));
                        releaseId =
                          (case tagRelease of None \<Rightarrow> None | Some r \<Rightarrow> Some (release_id r))
                    in (t, releaseId))
               (case getSelectedTags (opt_tags (gren_options gren)) tags of
                  Some selected \<Rightarrow> selected
                | None \<Rightarrow> take 2 tags)))"

definition getTagDates :: "gren \<Rightarrow> (tag \<times> int option) list \<Rightarrow> point promise list" where
  "getTagDates gren tags =
     map (\<lambda>(t, releaseId).
            andThen (request (GetCommit (tag_sha t)) (repo_getCommit gren (tag_sha t)))
              (\<lambda>date.
                 resolve \<lparr>point_id = releaseId, point_name = Some (tag_name t),
                          point_date = date, point_body = None\<rparr>))
       tags"

text \<open>\<^verbatim>\<open>dataSource[gren.options.dataSource](gren, ranges)\<close>: calling \<^verbatim>\<open>undefined\<close> throws.\<close>

definition dataSourceBlocks :: "lib \<Rightarrow> gren \<Rightarrow> range list \<Rightarrow> block list promise" where
  "dataSourceBlocks l gren releaseRanges =
     (let dataSource = opt_dataSource (gren_options gren)
      in if dataSource = ''issues'' then getIssueBlocks l gren releaseRanges
         else if dataSource = ''commits'' then getCommitBlocks l gren releaseRanges
         else if dataSource = ''milestones'' then getIssueBlocks l gren releaseRanges
         else reject NotAFunction)"

definition getReleaseBlocks :: "lib \<Rightarrow> gren \<Rightarrow> block list promise" where
  "getReleaseBlocks l gren =
     andThen
       (andThen
          (andThen (getListReleases gren)
             (\<lambda>releases. getLastTags gren (if releases \<noteq> [] then Some releases else None)))
          (\<lambda>tags. promiseAll (getTagDates gren tags)))
       (\<lambda>releaseDates. dataSourceBlocks l gren (createReleaseRanges releaseDates))"

subsection \<open>The release synchronizer\<close>

definition editRelease :: "gren \<Rightarrow> int \<Rightarrow> releaseOptions \<Rightarrow> release promise" where
  "editRelease gren releaseId releaseOptions =
     request (UpdateRelease releaseId releaseOptions)
       (repo_updateRelease gren releaseId releaseOptions)"

definition createRelease :: "gren \<Rightarrow> releaseOptions \<Rightarrow> release promise" where
  "createRelease gren releaseOptions =
     request (CreateRelease releaseOptions) (repo_createRelease gren releaseOptions)"

text \<open>The object \<^verbatim>\<open>releaseOptions\<close> that \<^verbatim>\<open>prepareRelease\<close> builds.\<close>

definition releaseOptionsOf :: "gren \<Rightarrow> block \<Rightarrow> releaseOptions" where
  "releaseOptionsOf gren blk =
     \<lparr>ro_tag_name = block_release blk,
      ro_name = block_name blk,
      ro_body = block_body blk,
      ro_draft = opt_draft (gren_options gren),
      ro_prerelease = opt_prerelease (gren_options gren)\<rparr>"

text \<open>The value of the promise is the release created or updated, or \<open>None\<close> for the
  \<^verbatim>\<open>Promise.resolve()\<close> of a skip.\<close>

definition prepareRelease :: "gren \<Rightarrow> block \<Rightarrow> release option promise" where
  "prepareRelease gren blk =
     (let releaseOptions = releaseOptionsOf gren blk
      in case block_id blk of
           None \<Rightarrow>
             andThen (createRelease gren releaseOptions) (\<lambda>r. resolve (Some r))
         | Some releaseId \<Rightarrow>
             if truthyNumber (block_id blk) then
               if \<not> opt_override (gren_options gren) then
                 ([ConsoleWarn (''Skipping '' @ jsString (block_release blk)
                                 @ '' (use --override to replace it)'')],
                  Inr None)
               else andThen (editRelease gren releaseId releaseOptions) (\<lambda>r. resolve (Some r))
             else andThen (createRelease gren releaseOptions) (\<lambda>r. resolve (Some r)))"

text \<open>The calls that the release synchronizer makes.\<close>

fun isCreateOrUpdate :: "event \<Rightarrow> bool" where
  "isCreateOrUpdate (CreateRelease releaseOptions) = True"
| "isCreateOrUpdate (UpdateRelease releaseId releaseOptions) = True"
| "isCreateOrUpdate ev = False"

text \<open>\<^verbatim>\<open>GithubReleaseNotes.prototype.release\<close>: the callback of \<^verbatim>\<open>then\<close> starts with
  \<^verbatim>\<open>throw blocks\<close>, so the \<^verbatim>\<open>reduce\<close> over \<^verbatim>\<open>prepareRelease\<close> after it is never run.\<close>

definition release :: "lib \<Rightarrow> gren \<Rightarrow> unit promise" where
  "release l gren = andThen (getReleaseBlocks l gren) (\<lambda>blocks. reject (ThrownBlocks blocks))"

subsection \<open>The changelog\<close>

text \<open>The rejected promise of \<^verbatim>\<open>checkChangelogFile\<close> is created and not returned: the
  function returns \<^verbatim>\<open>Promise.resolve()\<close> on every path.\<close>

definition checkChangelogFile :: "filesystem \<Rightarrow> gren \<Rightarrow> unit promise" where
  "checkChangelogFile fs gren =
     (let filePath = fs_cwd fs @ ''/'' @ opt_changelogFilename (gren_options gren)
      in if fs_existsSync fs filePath \<and> \<not> opt_override (gren_options gren)
         then ([UnhandledRejection ChangelogAlreadyExists], Inr ())
         else resolve ())"

definition createChangelog :: "filesystem \<Rightarrow> gren \<Rightarrow> string \<Rightarrow> unit promise" where
  "createChangelog fs gren body =
     (let filePath = fs_cwd fs @ ''/'' @ opt_changelogFilename (gren_options gren);
          content = tpl_changelogTitle (opt_template (gren_options gren)) @ body
      in ([WriteFile filePath content],
          (case fs_writeFileSync fs filePath content of
             Some e \<Rightarrow> Inl e
           | None \<Rightarrow> Inr ())))"

definition changelog :: "lib \<Rightarrow> filesystem \<Rightarrow> gren \<Rightarrow> unit promise" where
  "changelog l fs gren =
     andThen
       (andThen
          (andThen (checkChangelogFile fs gren)
             (\<lambda>_. if opt_generate (gren_options gren)
                   then andThen (getReleaseBlocks l gren) (\<lambda>blocks. resolve (map blockFields blocks))
                   else andThen (getListReleases gren) (\<lambda>rs. resolve (map releaseFields rs))))
          (\<lambda>releases. if length releases = 0 then reject NoReleases else resolve releases))
       (\<lambda>releases. createChangelog fs gren (templateReleases l gren releases))"

subsection \<open>Predicates of the properties\<close>

definition quiet :: "event list \<Rightarrow> bool" where
  "quiet tr = (filter isCreateOrUpdate tr = [])"


text \<open>A label name that is a plain key of the array \<^verbatim>\<open>groups\<close>: not \<^verbatim>\<open>__proto__\<close>, not \<^verbatim>\<open>length\<close>,
  not the name of a member that an array inherits.\<close>

definition plainKey :: "lib \<Rightarrow> string \<Rightarrow> bool" where
  "plainKey l key =
     (key \<noteq> ''__proto__'' \<and> key \<noteq> ''length'' \<and>
      key \<notin> set arrayMemberNames \<and> key \<notin> set (lib_arrayMembers l))"

subsection \<open>Example inputs\<close>

text \<open>Concrete inputs, on which the theorems below are instantiated.\<close>

definition pointA :: point where
  "pointA = \<lparr>point_id = Some 7, point_name = Some ''v1.0.0'', point_date = 100, point_body = None\<rparr>"

definition pointB :: point where
  "pointB = \<lparr>point_id = None, point_name = Some ''v2.0.0'', point_date = 300, point_body = None\<rparr>"

definition pointC :: point where
  "pointC = \<lparr>point_id = None, point_name = Some ''v1.5.0'', point_date = 200, point_body = None\<rparr>"

definition tagA :: tag where
  "tagA = \<lparr>tag_name = ''v2.0.0'', tag_sha = ''a2''\<rparr>"

definition tagB :: tag where
  "tagB = \<lparr>tag_name = ''v1.5.0'', tag_sha = ''a1''\<rparr>"

definition tagC :: tag where
  "tagC = \<lparr>tag_name = ''v1.0.0'', tag_sha = ''a0''\<rparr>"

definition exampleGenerate :: "(string \<times> string) list \<Rightarrow> string \<Rightarrow> string" where
  "exampleGenerate context template = template @ concat (map snd context)"

definition exampleArrayMembers :: "string list" where
  "exampleArrayMembers = [''includes'', ''values'', ''flat'', ''flatMap'', ''at'']"

definition exampleLib :: lib where
  "exampleLib =
     \<lparr>lib_generate = exampleGenerate,
      lib_formatDate = (\<lambda>date. ''a date''),
      lib_isInRange = (\<lambda>v lo hi. lo \<le> v \<and> v \<le> hi),
      lib_sortObject = (\<lambda>groups. groups),
      lib_arrayMembers = exampleArrayMembers\<rparr>"

definition exampleTemplates :: templates where
  "exampleTemplates =
     \<lparr>tpl_commit = ''- '',
      tpl_label = ''+'',
      tpl_issue = ''* '',
      tpl_group = ''## '',
      tpl_release = ''# '',
      tpl_releaseSeparator = ''---'',
      tpl_changelogTitle = ''Changelog: '',
      tpl_noLabel = None\<rparr>"

definition exampleRelease :: release where
  "exampleRelease =
     \<lparr>release_id = 5, release_tag_name = ''v1.0.0'', release_name = ''v1.0.0'',
      release_published_at = 100, release_body = ''First release''\<rparr>"

definition exampleIssue :: issue where
  "exampleIssue =
     \<lparr>issue_pull_request = False, issue_labels = [''bug''],
      issue_milestone = Some ''Release v2.0.0'', issue_title = ''Crash'', issue_number = 3,
      issue_html_url = ''u3'', issue_closed_at = 250\<rparr>"

definition unlabelledIssue :: issue where
  "unlabelledIssue =
     \<lparr>issue_pull_request = False, issue_labels = [],
      issue_milestone = None, issue_title = ''Typo'', issue_number = 4,
      issue_html_url = ''u4'', issue_closed_at = 260\<rparr>"

definition exampleGren :: "options \<Rightarrow> gren" where
  "exampleGren opts =
     \<lparr>gren_options = opts,
      repo_listReleases = Inr [exampleRelease],
      repo_listTags = Inr [tagA, tagB, tagC],
      repo_getCommit = (\<lambda>sha. Inr (if sha = ''a2'' then 300 else if sha = ''a1'' then 200 else 100)),
      repo_listCommits = (\<lambda>since until. Inr [''fix: a'', ''Merge b'', ''feat: c'']),
      repo_createRelease = (\<lambda>releaseOptions. Inr exampleRelease),
      repo_updateRelease = (\<lambda>releaseId releaseOptions. Inr exampleRelease),
      issues_listIssues = (\<lambda>since. Inr [exampleIssue, unlabelledIssue])\<rparr>"

definition exampleFs :: filesystem where
  "exampleFs =
     \<lparr>fs_cwd = ''/repo'',
      fs_existsSync = (\<lambda>path. path = ''/repo/CHANGELOG.md''),
      fs_writeFileSync = (\<lambda>path content. None)\<rparr>"

definition exampleBlock :: "int option \<Rightarrow> block" where
  "exampleBlock releaseId =
     \<lparr>block_id = releaseId, block_release = Some ''v1.0.0'', block_name = ''v1.0.0'',
      block_published_at = 100, block_body = ''notes''\<rparr>"



definition protoIssue :: issue where
  "protoIssue =
     \<lparr>issue_pull_request = False, issue_labels = [''__proto__''],
      issue_milestone = None, issue_title = ''Odd'', issue_number = 6,
      issue_html_url = ''u6'', issue_closed_at = 280\<rparr>"

definition notedRelease :: release where
  "notedRelease =
     \<lparr>release_id = 6, release_tag_name = ''v2.0.0'', release_name = ''v2.0.0'',
      release_published_at = 300, release_body = ''Old notes''\<rparr>"

definition notedGren :: gren where
  "notedGren = (exampleGren (defaults exampleTemplates))\<lparr>repo_listReleases := Inr [notedRelease]\<rparr>"

section \<open>Properties\<close>

subsection \<open>The changelog over an existing file\<close>

lemma checkChangelogFile_resolves: "snd (checkChangelogFile fs gren) = Inr ()"
  by (simp add: checkChangelogFile_def Let_def resolve_def)

text \<open>With the file present and no override, \<^verbatim>\<open>changelog\<close> does what it does when the file
  is absent, after the rejection that nothing handles.\<close>

lemma changelog_existing_file_proceeds:
  assumes "fs_existsSync fs (fs_cwd fs @ ''/'' @ opt_changelogFilename (gren_options gren))"
    and "\<not> opt_override (gren_options gren)"
  shows "changelog l fs gren =
    (UnhandledRejection ChangelogAlreadyExists
       # fst (changelog l (fs\<lparr>fs_existsSync := (\<lambda>path. False)\<rparr>) gren),
     snd (changelog l (fs\<lparr>fs_existsSync := (\<lambda>path. False)\<rparr>) gren))"
  using assms
  by (simp add: changelog_def checkChangelogFile_def createChangelog_def andThen_def resolve_def
      Let_def split: prod.splits sum.splits)

text \<open>
  Claim C1 (the code departs from it). The changelog file exists, \<^verbatim>\<open>override\<close> is not set,
  and the repository has one release: \<^verbatim>\<open>changelog\<close> is not rejected. The rejected promise of
  \<^verbatim>\<open>checkChangelogFile\<close> is dropped, the releases are listed and the file is written over.
\<close>

theorem changelog_overwrites_existing_file:
  "fs_existsSync exampleFs (fs_cwd exampleFs @ ''/'' @ opt_changelogFilename (defaults exampleTemplates)) \<and>
   \<not> opt_override (defaults exampleTemplates) \<and>
   changelog exampleLib exampleFs (exampleGren (defaults exampleTemplates)) =
     ([UnhandledRejection ChangelogAlreadyExists, ListReleases,
       WriteFile ''/repo/CHANGELOG.md'' ''Changelog: # v1.0.0a dateFirst release''],
      Inr ())"
  by (simp add: changelog_def checkChangelogFile_def createChangelog_def getListReleases_def
      templateReleases_def releaseFields_def andThen_def request_def resolve_def reject_def
      exampleFs_def exampleGren_def exampleLib_def exampleGenerate_def exampleTemplates_def
      exampleRelease_def defaults_def Let_def)

subsection \<open>The release command\<close>

text \<open>A trace is quiet when it holds no call of \<^verbatim>\<open>createRelease\<close> or \<^verbatim>\<open>updateRelease\<close>.\<close>

lemma quiet_andThen:
  assumes "quiet (fst p)" and "\<And>x. quiet (fst (f x))"
  shows "quiet (fst (andThen p f))"
proof (cases p)
  case (Pair tr r)
  show ?thesis
  proof (cases r)
    case (Inl e)
    with Pair assms show ?thesis by (simp add: andThen_def)
  next
    case (Inr x)
    obtain tr' r' where f: "f x = (tr', r')" by (cases "f x")
    from assms(2) [of x] f have "quiet tr'" by simp
    with Pair Inr f assms(1) show ?thesis by (simp add: andThen_def quiet_def)
  qed
qed

lemma quiet_promiseAll:
  assumes "\<And>p. p \<in> set ps \<Longrightarrow> quiet (fst p)"
  shows "quiet (fst (promiseAll ps))"
  using assms by (induction ps) (auto simp: promiseAll_def quiet_def)

lemma quiet_resolve: "quiet (fst (resolve x))"
  by (simp add: resolve_def quiet_def)

lemma quiet_reject: "quiet (fst (reject e))"
  by (simp add: reject_def quiet_def)

lemma quiet_request: "\<not> isCreateOrUpdate ev \<Longrightarrow> quiet (fst (request ev answer))"
  by (simp add: request_def quiet_def)

lemma quiet_getListReleases: "quiet (fst (getListReleases gren))"
  by (simp add: getListReleases_def quiet_request)

lemma quiet_getLastTags: "quiet (fst (getLastTags gren releases))"
  unfolding getLastTags_def
  by (intro quiet_andThen quiet_request quiet_resolve) simp

lemma quiet_tagDate:
  "quiet (fst (andThen (request (GetCommit sha) answer) (\<lambda>date. resolve (mk date))))"
  by (simp add: quiet_andThen quiet_request quiet_resolve)

lemma quiet_getTagDates: "p \<in> set (getTagDates gren tags) \<Longrightarrow> quiet (fst p)"
  unfolding getTagDates_def by (auto simp: quiet_tagDate)

lemma quiet_commitBlock:
  "quiet (fst (andThen (getCommitsBetweenTwo gren since until)
     (\<lambda>commits. case generateCommitsBody l gren commits of
                   Inl e \<Rightarrow> reject e
                 | Inr body \<Rightarrow> resolve (mk body))))"
  by (intro quiet_andThen)
    (simp_all add: getCommitsBetweenTwo_def quiet_request quiet_resolve quiet_reject
      split: sum.splits)

lemma quiet_getCommitBlocks: "quiet (fst (getCommitBlocks l gren releaseRanges))"
  unfolding getCommitBlocks_def
  by (rule quiet_promiseAll) (auto simp: quiet_commitBlock)

lemma quiet_getClosedIssues: "quiet (fst (getClosedIssues gren releaseRanges))"
  by (simp add: getClosedIssues_def quiet_andThen quiet_request quiet_resolve quiet_reject)

lemma quiet_getIssueBlocks: "quiet (fst (getIssueBlocks l gren releaseRanges))"
  unfolding getIssueBlocks_def
  by (rule quiet_andThen [OF quiet_getClosedIssues])
    (simp add: quiet_resolve quiet_reject split: sum.splits)

lemma quiet_dataSourceBlocks: "quiet (fst (dataSourceBlocks l gren releaseRanges))"
  by (simp add: dataSourceBlocks_def Let_def quiet_getIssueBlocks quiet_getCommitBlocks quiet_reject)

lemma quiet_getReleaseBlocks: "quiet (fst (getReleaseBlocks l gren))"
  unfolding getReleaseBlocks_def
  by (intro quiet_andThen quiet_getListReleases quiet_getLastTags quiet_promiseAll
      quiet_getTagDates quiet_dataSourceBlocks)

text \<open>
  Claim C2. For every input, the trace of \<^verbatim>\<open>release\<close> holds no call of \<^verbatim>\<open>createRelease\<close> or
  \<^verbatim>\<open>updateRelease\<close>: its effects are those of \<^verbatim>\<open>getReleaseBlocks\<close> and no more, and it is
  always rejected, with the blocks themselves once they are built (the \<^verbatim>\<open>throw blocks\<close> that
  precedes the loop over \<^verbatim>\<open>prepareRelease\<close>), with the earlier rejection otherwise.
\<close>

theorem release_never_creates_or_updates:
  "filter isCreateOrUpdate (fst (release l gren)) = [] \<and>
   fst (release l gren) = fst (getReleaseBlocks l gren) \<and>
   snd (release l gren) =
     (case snd (getReleaseBlocks l gren) of
        Inl e \<Rightarrow> Inl e
      | Inr blocks \<Rightarrow> Inl (ThrownBlocks blocks))"
proof -
  have "quiet (fst (release l gren))"
    unfolding release_def by (rule quiet_andThen [OF quiet_getReleaseBlocks]) (rule quiet_reject)
  moreover have "fst (release l gren) = fst (getReleaseBlocks l gren)"
    by (cases "getReleaseBlocks l gren")
      (simp add: release_def andThen_def reject_def split: sum.splits)
  moreover have "snd (release l gren) =
     (case snd (getReleaseBlocks l gren) of
        Inl e \<Rightarrow> Inl e
      | Inr blocks \<Rightarrow> Inl (ThrownBlocks blocks))"
    by (cases "getReleaseBlocks l gren")
      (simp add: release_def andThen_def reject_def split: sum.splits)
  ultimately show ?thesis
    by (simp add: quiet_def)
qed

text \<open>A run on a repository with three tags and one release, from commits: the block of the
  newest tag has no release and would be created, and is thrown instead.\<close>

theorem release_never_creates_or_updates_witness:
  "release exampleLib (exampleGren ((defaults exampleTemplates)\<lparr>opt_dataSource := ''commits''\<rparr>)) =
     ([ListReleases, ListTags, GetCommit ''a2'', GetCommit ''a1'', ListCommits 200 300],
      Inl (ThrownBlocks
        [\<lparr>block_id = None, block_release = Some ''v2.0.0'', block_name = ''v2.0.0'',
          block_published_at = 300, block_body = ''- fix: a\<newline>''\<rparr>])) \<and>
   filter isCreateOrUpdate
     (fst (release exampleLib
        (exampleGren ((defaults exampleTemplates)\<lparr>opt_dataSource := ''commits''\<rparr>)))) = []"
proof -
  have "release exampleLib (exampleGren ((defaults exampleTemplates)\<lparr>opt_dataSource := ''commits''\<rparr>)) =
     ([ListReleases, ListTags, GetCommit ''a2'', GetCommit ''a1'', ListCommits 200 300],
      Inl (ThrownBlocks
        [\<lparr>block_id = None, block_release = Some ''v2.0.0'', block_name = ''v2.0.0'',
          block_published_at = 300, block_body = ''- fix: a\<newline>''\<rparr>]))"
    by code_simp
  then show ?thesis
    using release_never_creates_or_updates [of exampleLib
        "exampleGren ((defaults exampleTemplates)\<lparr>opt_dataSource := ''commits''\<rparr>)"]
    by blast
qed

subsection \<open>The release synchronizer\<close>

text \<open>The id 0 is falsy: a block with it takes the branch of \<^verbatim>\<open>createRelease\<close>, as one
  with \<^verbatim>\<open>null\<close> does.\<close>

lemma prepareRelease_id_zero:
  "block_id blk = Some 0 \<Longrightarrow>
   fst (prepareRelease gren blk) = [CreateRelease (releaseOptionsOf gren blk)]"
  by (auto simp: prepareRelease_def Let_def truthyNumber_def andThen_def createRelease_def
      request_def resolve_def split: sum.splits)

text \<open>
  Claim C3. For a block handed to \<^verbatim>\<open>prepareRelease\<close>: when its id is \<^verbatim>\<open>null\<close>, the effects are
  one call of \<^verbatim>\<open>createRelease\<close>; when its id is the id of a release and \<^verbatim>\<open>override\<close> is set,
  one call of \<^verbatim>\<open>updateRelease\<close> with that id; when its id is the id of a release and
  \<^verbatim>\<open>override\<close> is not set, no call at all, the warning of the skip, and a resolved promise.
  The id of a release is a number other than 0: the test of the source is \<^verbatim>\<open>if (block.id)\<close>,
  and 0 is the id that the code itself gives to the point that stands for no release.
\<close>

theorem prepareRelease_create_update_skip:
  "(block_id blk = None \<longrightarrow>
      fst (prepareRelease gren blk) = [CreateRelease (releaseOptionsOf gren blk)]) \<and>
   (\<forall>releaseId. block_id blk = Some releaseId \<and> releaseId \<noteq> 0 \<and> opt_override (gren_options gren) \<longrightarrow>
      fst (prepareRelease gren blk) = [UpdateRelease releaseId (releaseOptionsOf gren blk)]) \<and>
   (\<forall>releaseId. block_id blk = Some releaseId \<and> releaseId \<noteq> 0 \<and> \<not> opt_override (gren_options gren) \<longrightarrow>
      prepareRelease gren blk =
        ([ConsoleWarn (''Skipping '' @ jsString (block_release blk) @ '' (use --override to replace it)'')],
         Inr None))"
  by (auto simp: prepareRelease_def Let_def truthyNumber_def andThen_def createRelease_def
      editRelease_def request_def resolve_def split: sum.splits)

text \<open>A block without a release, and a block of release 5 with and without \<^verbatim>\<open>override\<close>.\<close>

theorem prepareRelease_create_update_skip_witness:
  "fst (prepareRelease (exampleGren (defaults exampleTemplates)) (exampleBlock None))
     = [CreateRelease (releaseOptionsOf (exampleGren (defaults exampleTemplates)) (exampleBlock None))] \<and>
   fst (prepareRelease (exampleGren ((defaults exampleTemplates)\<lparr>opt_override := True\<rparr>)) (exampleBlock (Some 5)))
     = [UpdateRelease 5 (releaseOptionsOf (exampleGren ((defaults exampleTemplates)\<lparr>opt_override := True\<rparr>))
          (exampleBlock (Some 5)))] \<and>
   prepareRelease (exampleGren (defaults exampleTemplates)) (exampleBlock (Some 5))
     = ([ConsoleWarn ''Skipping v1.0.0 (use --override to replace it)''], Inr None)"
  using prepareRelease_create_update_skip [of "exampleBlock None" "exampleGren (defaults exampleTemplates)"]
    prepareRelease_create_update_skip [of "exampleBlock (Some 5)"
      "exampleGren ((defaults exampleTemplates)\<lparr>opt_override := True\<rparr>)"]
    prepareRelease_create_update_skip [of "exampleBlock (Some 5)" "exampleGren (defaults exampleTemplates)"]
  by (simp add: exampleBlock_def exampleGren_def defaults_def jsString_def)

subsection \<open>The issue pre-filter\<close>

lemma compareIssueLabels_foldl:
  "foldl (\<lambda>carry ignoredLabel. carry \<and> ignoredLabel \<notin> set labels) b ignoreLabels
     = (b \<and> set ignoreLabels \<inter> set labels = {})"
  by (induction ignoreLabels arbitrary: b) auto

lemma compareIssueLabels_iff:
  "compareIssueLabels ignoreLabels labels \<longleftrightarrow> set ignoreLabels \<inter> set labels = {}"
  by (simp add: compareIssueLabels_def compareIssueLabels_foldl)

text \<open>What \<^verbatim>\<open>filterIssue\<close> computes: with \<^verbatim>\<open>onlyMilestones\<close> set it keeps no issue at all.\<close>

lemma filterIssue_iff:
  "filterIssue gren issue \<longleftrightarrow>
     \<not> issue_pull_request issue \<and>
     set (opt_ignoreIssuesWith (gren_options gren)) \<inter> set (issue_labels issue) = {} \<and>
     \<not> opt_onlyMilestones (gren_options gren) \<and>
     \<not> (opt_dataSource (gren_options gren) = ''milestones'' \<and> issue_milestone issue = None)"
  by (auto simp: filterIssue_def compareIssueLabels_iff)

text \<open>
  Claim C4 (the code departs from it). An issue that has a milestone, is no pull request and
  carries no ignored label is kept under the default options, and excluded once
  \<^verbatim>\<open>onlyMilestones\<close> is set.
\<close>

theorem filterIssue_onlyMilestones_excludes_milestone_issue:
  "issue_milestone exampleIssue = Some ''Release v2.0.0'' \<and>
   \<not> issue_pull_request exampleIssue \<and>
   set (opt_ignoreIssuesWith (defaults exampleTemplates)) \<inter> set (issue_labels exampleIssue) = {} \<and>
   filterIssue (exampleGren (defaults exampleTemplates)) exampleIssue \<and>
   \<not> filterIssue (exampleGren ((defaults exampleTemplates)\<lparr>opt_onlyMilestones := True\<rparr>)) exampleIssue"
  by (simp add: filterIssue_def compareIssueLabels_def exampleGren_def defaults_def exampleIssue_def)

subsection \<open>Issue blocks over an existing body\<close>

lemma filterE_total:
  assumes "\<And>x. x \<in> set xs \<Longrightarrow> \<exists>b. p x = Inr b"
  shows "filterE p xs = Inr (filter (\<lambda>x. p x = Inr True) xs)"
  using assms
proof (induction xs)
  case Nil
  then show ?case by simp
next
  case (Cons x xs)
  then obtain b where "p x = Inr b" by auto
  with Cons show ?case by simp
qed

lemma filterBlockIssue_total:
  assumes "filterIssue gren issue"
  shows "\<exists>b. filterBlockIssue l gren rng issue = Inr b"
  using assms by (auto simp: filterBlockIssue_def filterIssue_def split: option.splits)

text \<open>What the callback of \<^verbatim>\<open>getIssueBlocks\<close> does with a range whose newer end has a body that
  is not empty, when \<^verbatim>\<open>override\<close> is not set: \<^verbatim>\<open>groupBy\<close> is not run and the body is kept, with
  the newline that \<^verbatim>\<open>templateIssueBody\<close> appends.\<close>

lemma issueBlock_given_body:
  assumes "point_body (fst rng) = Some b" and "b \<noteq> []"
    and "\<not> opt_override (gren_options gren)"
    and "\<forall>issue \<in> set issues. filterIssue gren issue"
  shows "issueBlock l gren issues proto rng =
    Inr (\<lparr>block_id = point_id (fst rng),
          block_release = point_name (fst rng),
          block_name = opt_prefix (gren_options gren) @ jsString (point_name (fst rng)),
          block_published_at = point_date (fst rng),
          block_body = b @ ''\<newline>''\<rparr>, proto)"
proof -
  have "filterE (filterBlockIssue l gren rng) issues
      = Inr (filter (\<lambda>issue. filterBlockIssue l gren rng issue = Inr True) issues)"
    using assms(4) by (intro filterE_total filterBlockIssue_total) blast
  then show ?thesis
    using assms(1-3)
    by (simp add: issueBlock_def truthyString_def templateIssueBody_def jsString_def)
qed

text \<open>What it does with a range whose newer end has no body: \<^verbatim>\<open>groupBy\<close> is run, whatever
  \<^verbatim>\<open>override\<close> is.\<close>

lemma issueBlock_no_body:
  assumes "point_body (fst rng) = None"
  shows "issueBlock l gren issues proto rng =
    (case filterE (filterBlockIssue l gren rng) issues of
       Inl e \<Rightarrow> Inl e
     | Inr filteredIssues \<Rightarrow>
         (case groupBy l gren proto filteredIssues of
            Inl e \<Rightarrow> Inl e
          | Inr (lines, proto') \<Rightarrow>
              Inr (\<lparr>block_id = point_id (fst rng),
                    block_release = point_name (fst rng),
                    block_name = opt_prefix (gren_options gren) @ jsString (point_name (fst rng)),
                    block_published_at = point_date (fst rng),
                    block_body = templateIssueBody (Some lines) None\<rparr>, proto')))"
  using assms
  by (simp add: issueBlock_def truthyString_def split: sum.splits prod.splits)

text \<open>No range of the pipeline has a body: \<^verbatim>\<open>getTagDates\<close> builds its points from \<^verbatim>\<open>id\<close>,
  \<^verbatim>\<open>name\<close> and \<^verbatim>\<open>date\<close>, and the point that \<^verbatim>\<open>createReleaseRanges\<close> adds has none either.\<close>

lemma firstError_Inr: "firstError rs = Inr xs \<Longrightarrow> rs = map Inr xs"
proof (induction rs arbitrary: xs)
  case Nil
  then show ?case by simp
next
  case (Cons r rs)
  then show ?case
    by (cases r) (auto split: sum.splits)
qed

lemma tagDate_no_body:
  assumes "snd (andThen (request ev answer)
      (\<lambda>date. resolve \<lparr>point_id = releaseId, point_name = name,
                         point_date = date, point_body = None\<rparr>)) = Inr p"
  shows "point_body p = None"
  using assms by (cases answer) (auto simp: andThen_def request_def resolve_def)

lemma getTagDates_element_no_body:
  assumes "q \<in> set (getTagDates gren tags)" and "snd q = Inr p"
  shows "point_body p = None"
  using assms by (auto simp: getTagDates_def dest: tagDate_no_body)

lemma getTagDates_no_body:
  assumes "snd (promiseAll (getTagDates gren tags)) = Inr points" and "p \<in> set points"
  shows "point_body p = None"
proof -
  have "map snd (getTagDates gren tags) = map Inr points"
    using assms(1) by (simp add: promiseAll_def firstError_Inr)
  then have "Inr p \<in> snd ` set (getTagDates gren tags)"
    using assms(2) by (metis image_eqI list.set_map)
  then obtain q where "q \<in> set (getTagDates gren tags)" and "snd q = Inr p"
    by auto
  then show ?thesis
    by (rule getTagDates_element_no_body)
qed

lemma createReleaseRanges_no_body:
  assumes "\<forall>p \<in> set releaseDates. point_body p = None"
    and "rng \<in> set (createReleaseRanges releaseDates)"
  shows "point_body (fst rng) = None"
proof -
  define sorted' where "sorted' =
    (if length (sortReleasesByDate releaseDates) = 1
     then sortReleasesByDate releaseDates @ [dateZeroPoint]
     else sortReleasesByDate releaseDates)"
  have "set (sortReleasesByDate releaseDates) = set releaseDates"
    by (simp add: sortReleasesByDate_def)
  then have all: "\<forall>p \<in> set sorted'. point_body p = None"
    using assms(1) by (auto simp: sorted'_def dateZeroPoint_def)
  from assms(2) obtain i where "i < length sorted' - 1" and "rng = (sorted' ! i, sorted' ! Suc i)"
    by (auto simp: createReleaseRanges_def Let_def sorted'_def)
  then show ?thesis
    using all by simp
qed

text \<open>
  Claim C5 (the code departs from it). The newest tag has a release whose body is
  \<^verbatim>\<open>Old notes\<close>, and \<^verbatim>\<open>override\<close> is not set: the body of its block is computed anew from the
  issues. The callback reads \<^verbatim>\<open>range[0].body\<close>, and no point ever has one.
\<close>

theorem getReleaseBlocks_recomputes_existing_body:
  "repo_listReleases notedGren = Inr [notedRelease] \<and>
   release_tag_name notedRelease = tag_name tagA \<and>
   release_body notedRelease = ''Old notes'' \<and>
   \<not> opt_override (gren_options notedGren) \<and>
   getReleaseBlocks exampleLib notedGren =
     ([ListReleases, ListTags, GetCommit ''a2'', GetCommit ''a1'', ListIssues 200],
      Inr [\<lparr>block_id = Some 6, block_release = Some ''v2.0.0'', block_name = ''v2.0.0'',
            block_published_at = 300,
            block_body = ''* +bugCrash#3u3\<newline>* Typo#4u4\<newline>''\<rparr>])"
proof -
  have "getReleaseBlocks exampleLib notedGren =
     ([ListReleases, ListTags, GetCommit ''a2'', GetCommit ''a1'', ListIssues 200],
      Inr [\<lparr>block_id = Some 6, block_release = Some ''v2.0.0'', block_name = ''v2.0.0'',
            block_published_at = 300,
            block_body = ''* +bugCrash#3u3\<newline>* Typo#4u4\<newline>''\<rparr>])"
    by code_simp
  then show ?thesis
    by (simp add: notedGren_def notedRelease_def exampleGren_def defaults_def tagA_def)
qed

subsection \<open>Commit bodies\<close>

lemma butlast_pushSentinel:
  "butlast (pushSentinel messages) =
     map Some (if length messages = 1 then messages else butlast messages)"
  by (simp add: pushSentinel_def butlast_append map_butlast)

lemma includeMessage_Some:
  assumes "opt_includeMessages (gren_options gren) \<notin> set objectPrototypeNames"
  shows "includeMessage gren (Some m) =
     Inr (if opt_includeMessages (gren_options gren) = ''merges'' then matchMerge m
          else if opt_includeMessages (gren_options gren) = ''all'' then True
          else \<not> matchMerge m)"
  using assms
  by (simp add: includeMessage_def filterMap_def inheritedFilter_def objectPrototypeNames_def
      filterMerges_def filterCommits_def filterAll_def Let_def)

lemma filterE_map_Some:
  assumes "\<And>m. p (Some m) = Inr (q m)"
  shows "filterE p (map Some ms) = Inr (map Some (filter q ms))"
  by (induction ms) (simp_all add: assms)

lemma filterE_throws:
  assumes "\<And>x. p x = Inl e"
  shows "filterE p xs = (if xs = [] then Inr [] else Inl e)"
  by (cases xs) (simp_all add: assms)

lemma map_messageText_Some: "map (\<lambda>message. f (messageText message)) (map Some ms) = map f ms"
  by (simp add: messageText_def)

text \<open>A mode that names a member of \<^verbatim>\<open>Object.prototype\<close> does not fall back to \<^verbatim>\<open>commits\<close>:
  the member is called. Four of them keep every message, three throw as soon as there is
  a message to filter.\<close>

lemma generateCommitsBody_inherited_keeps_all:
  assumes "opt_includeMessages (gren_options gren)
      \<in> set [''constructor'', ''toString'', ''toLocaleString'', ''valueOf'']"
  shows "generateCommitsBody l gren messages =
     Inr (join ''\<newline>'' (map (templateCommits l gren)
       (if length messages = 1 then messages else butlast messages)))"
proof -
  have "includeMessage gren (Some m) = Inr True" for m
    using assms by (auto simp: includeMessage_def filterMap_def inheritedFilter_def Let_def)
  then have "filterE (includeMessage gren) (map Some ms) = Inr (map Some (filter (\<lambda>m. True) ms))"
    for ms
    by (rule filterE_map_Some)
  then show ?thesis
    by (simp add: generateCommitsBody_def butlast_pushSentinel messageText_def comp_def)
qed

lemma generateCommitsBody_inherited_throws:
  assumes "opt_includeMessages (gren_options gren)
      \<in> set [''__proto__'', ''__defineGetter__'', ''__defineSetter__'']"
  shows "generateCommitsBody l gren messages =
     (if messages = [] then Inr [] else Inl NotAFunction)"
proof -
  have "includeMessage gren message = Inl NotAFunction" for message
    using assms by (auto simp: includeMessage_def filterMap_def inheritedFilter_def Let_def)
  then have "filterE (includeMessage gren) xs = (if xs = [] then Inr [] else Inl NotAFunction)"
    for xs
    by (rule filterE_throws)
  moreover have "butlast (pushSentinel messages) = [] \<longleftrightarrow> messages = []"
    by (cases messages) (auto simp: pushSentinel_def)
  ultimately show ?thesis
    by (simp add: generateCommitsBody_def)
qed

text \<open>
  Claim C6, as amended. For a mode that is not the name of a member of \<^verbatim>\<open>Object.prototype\<close>,
  the body of \<^verbatim>\<open>generateCommitsBody\<close> is the newline-join of the rendered templates of the
  eligible messages that the mode keeps: \<^verbatim>\<open>'merges'\<close> keeps the messages that begin with
  ``merge'' in any case, \<^verbatim>\<open>'all'\<close> keeps every message, and \<^verbatim>\<open>'commits'\<close> or any other such
  mode keeps the messages that do not begin with ``merge''. The eligible messages are all
  but the last one, except for a list of exactly one message, where the \<^verbatim>\<open>null\<close> pushed
  after it is what \<^verbatim>\<open>slice(0, -1)\<close> drops and the message itself is eligible. The \<^verbatim>\<open>null\<close>
  never reaches the filter, so the function does not throw.
\<close>

theorem generateCommitsBody_eligible_messages:
  "opt_includeMessages (gren_options gren) \<notin> set objectPrototypeNames \<longrightarrow>
   generateCommitsBody l gren messages =
     Inr (join ''\<newline>'' (map (templateCommits l gren)
       (filter (\<lambda>message.
            if opt_includeMessages (gren_options gren) = ''merges'' then matchMerge message
            else if opt_includeMessages (gren_options gren) = ''all'' then True
            else \<not> matchMerge message)
          (if length messages = 1 then messages else butlast messages))))"
proof
  assume "opt_includeMessages (gren_options gren) \<notin> set objectPrototypeNames"
  then have "filterE (includeMessage gren) (map Some ms) =
      Inr (map Some (filter (\<lambda>message.
            if opt_includeMessages (gren_options gren) = ''merges'' then matchMerge message
            else if opt_includeMessages (gren_options gren) = ''all'' then True
            else \<not> matchMerge message) ms))" for ms
    by (intro filterE_map_Some includeMessage_Some)
  then show "generateCommitsBody l gren messages =
     Inr (join ''\<newline>'' (map (templateCommits l gren)
       (filter (\<lambda>message.
            if opt_includeMessages (gren_options gren) = ''merges'' then matchMerge message
            else if opt_includeMessages (gren_options gren) = ''all'' then True
            else \<not> matchMerge message)
          (if length messages = 1 then messages else butlast messages))))"
    unfolding generateCommitsBody_def butlast_pushSentinel
    by (simp only: sum.case map_messageText_Some)
qed

text \<open>The claim as first stated fails: one message, which the mode \<^verbatim>\<open>'commits'\<close> keeps, gives
  a body that is not empty.\<close>

theorem generateCommitsBody_single_message_kept:
  "length [''fix: a''] = 1 \<and>
   generateCommitsBody exampleLib (exampleGren (defaults exampleTemplates)) [''fix: a''] = Inr ''- fix: a''"
  by code_simp

text \<open>Three messages under the modes \<^verbatim>\<open>'commits'\<close>, \<^verbatim>\<open>'merges'\<close>, \<^verbatim>\<open>'all'\<close> and \<^verbatim>\<open>'other'\<close>: the
  last message is dropped, the merge is filtered.\<close>

theorem generateCommitsBody_eligible_messages_witness:
  "generateCommitsBody exampleLib (exampleGren (defaults exampleTemplates))
     [''fix: a'', ''Merge b'', ''feat: c''] = Inr ''- fix: a'' \<and>
   generateCommitsBody exampleLib (exampleGren ((defaults exampleTemplates)\<lparr>opt_includeMessages := ''merges''\<rparr>))
     [''fix: a'', ''Merge b'', ''feat: c''] = Inr ''- Merge b'' \<and>
   generateCommitsBody exampleLib (exampleGren ((defaults exampleTemplates)\<lparr>opt_includeMessages := ''all''\<rparr>))
     [''fix: a'', ''Merge b'', ''feat: c''] = Inr ''- fix: a\<newline>- Merge b'' \<and>
   generateCommitsBody exampleLib (exampleGren ((defaults exampleTemplates)\<lparr>opt_includeMessages := ''other''\<rparr>))
     [''fix: a'', ''Merge b'', ''feat: c''] = Inr ''- fix: a''"
proof -
  have body: "generateCommitsBody exampleLib (exampleGren ((defaults exampleTemplates)\<lparr>opt_includeMessages := mode\<rparr>))
       [''fix: a'', ''Merge b'', ''feat: c''] =
     Inr (join ''\<newline>'' (map (templateCommits exampleLib
         (exampleGren ((defaults exampleTemplates)\<lparr>opt_includeMessages := mode\<rparr>)))
       (filter (\<lambda>message.
            if mode = ''merges'' then matchMerge message
            else if mode = ''all'' then True
            else \<not> matchMerge message)
          [''fix: a'', ''Merge b''])))"
    if "mode \<notin> set objectPrototypeNames" for mode
    using generateCommitsBody_eligible_messages [of
        "exampleGren ((defaults exampleTemplates)\<lparr>opt_includeMessages := mode\<rparr>)"
        exampleLib "[''fix: a'', ''Merge b'', ''feat: c'']"] that
    by (simp add: exampleGren_def)
  have kept: "\<not> matchMerge ''fix: a''" "matchMerge ''Merge b''"
    by code_simp+
  have render: "templateCommits exampleLib (exampleGren opts) m = tpl_commit (opt_template opts) @ m"
    for opts m
    by (simp add: templateCommits_def exampleLib_def exampleGenerate_def exampleGren_def)
  have same: "(defaults exampleTemplates)\<lparr>opt_includeMessages := ''commits''\<rparr> = defaults exampleTemplates"
    by (simp add: defaults_def)
  have "generateCommitsBody exampleLib (exampleGren (defaults exampleTemplates))
       [''fix: a'', ''Merge b'', ''feat: c''] = Inr ''- fix: a''"
    using body [of "''commits''"] kept
    by (simp add: same render objectPrototypeNames_def defaults_def exampleTemplates_def)
  moreover have "generateCommitsBody exampleLib
       (exampleGren ((defaults exampleTemplates)\<lparr>opt_includeMessages := ''merges''\<rparr>))
       [''fix: a'', ''Merge b'', ''feat: c''] = Inr ''- Merge b''"
    using body [of "''merges''"] kept
    by (simp add: render objectPrototypeNames_def defaults_def exampleTemplates_def)
  moreover have "generateCommitsBody exampleLib
       (exampleGren ((defaults exampleTemplates)\<lparr>opt_includeMessages := ''all''\<rparr>))
       [''fix: a'', ''Merge b'', ''feat: c''] = Inr ''- fix: a\<newline>- Merge b''"
    using body [of "''all''"] kept
    by (simp add: render objectPrototypeNames_def defaults_def exampleTemplates_def)
  moreover have "generateCommitsBody exampleLib
       (exampleGren ((defaults exampleTemplates)\<lparr>opt_includeMessages := ''other''\<rparr>))
       [''fix: a'', ''Merge b'', ''feat: c''] = Inr ''- fix: a''"
    using body [of "''other''"] kept
    by (simp add: render objectPrototypeNames_def defaults_def exampleTemplates_def)
  ultimately show ?thesis
    by simp
qed

subsection \<open>Grouping by a custom mapping\<close>
















subsection \<open>The date range builder\<close>

lemma sortReleasesByDate_mset: "mset (sortReleasesByDate xs) = mset xs"
  by (simp add: sortReleasesByDate_def)

lemma sortReleasesByDate_length: "length (sortReleasesByDate xs) = length xs"
  by (simp add: sortReleasesByDate_def)

lemma sortReleasesByDate_sorted:
  "sorted_wrt (\<lambda>a b. point_date b \<le> point_date a) (sortReleasesByDate xs)"
proof -
  have "sorted (map (\<lambda>r. - point_date r) (sortReleasesByDate xs))"
    by (simp add: sortReleasesByDate_def)
  then show ?thesis
    by (simp add: sorted_wrt_map)
qed

lemma createReleaseRanges_many:
  assumes "2 \<le> length xs"
  shows "createReleaseRanges xs =
    map (\<lambda>i. (sortReleasesByDate xs ! i, sortReleasesByDate xs ! Suc i)) [0 ..< length xs - 1]"
  using assms by (simp add: createReleaseRanges_def Let_def sortReleasesByDate_length)

lemma createReleaseRanges_one: "createReleaseRanges [p] = [(p, dateZeroPoint)]"
  by (simp add: createReleaseRanges_def sortReleasesByDate_def)

lemma createReleaseRanges_descending:
  assumes n: "2 \<le> length releaseDates"
    and r: "r \<in> set (createReleaseRanges releaseDates)"
  shows "point_date (snd r) \<le> point_date (fst r)"
proof -
  obtain i where i: "i < length releaseDates - 1"
    and r: "r = (sortReleasesByDate releaseDates ! i, sortReleasesByDate releaseDates ! Suc i)"
    using n r by (auto simp: createReleaseRanges_many)
  have "Suc i < length (sortReleasesByDate releaseDates)"
    using i by (simp add: sortReleasesByDate_length)
  then have "point_date (sortReleasesByDate releaseDates ! Suc i)
      \<le> point_date (sortReleasesByDate releaseDates ! i)"
    using sortReleasesByDate_sorted [of releaseDates]
    by (simp add: sorted_wrt_iff_nth_less)
  then show ?thesis
    by (simp add: r)
qed

text \<open>
  Claim C8. The result of \<^verbatim>\<open>createReleaseRanges\<close> is determined by the number of points.
  No point: no range. One point \<open>p\<close>: the one range from \<open>p\<close> to the synthetic point, whose
  date is the epoch and whose id is 0. Two points or more, \<open>n\<close> of them: \<open>n - 1\<close> ranges,
  the \<open>i\<close>-th being the pair of the \<open>i\<close>-th and the next point of the list sorted by date,
  newest first (a permutation of the input, descending); so in every range the newer date
  is at least the older one, and the older end of a range is the newer end of the next.
\<close>

theorem createReleaseRanges_by_count:
  "(releaseDates = [] \<longrightarrow> createReleaseRanges releaseDates = []) \<and>
   (\<forall>p. releaseDates = [p] \<longrightarrow>
      createReleaseRanges releaseDates = [(p, dateZeroPoint)] \<and>
      point_date dateZeroPoint = 0 \<and> point_id dateZeroPoint = Some 0) \<and>
   (2 \<le> length releaseDates \<longrightarrow>
      mset (sortReleasesByDate releaseDates) = mset releaseDates \<and>
      sorted_wrt (\<lambda>a b. point_date b \<le> point_date a) (sortReleasesByDate releaseDates) \<and>
      length (createReleaseRanges releaseDates) = length releaseDates - 1 \<and>
      (\<forall>i < length releaseDates - 1.
         createReleaseRanges releaseDates ! i =
           (sortReleasesByDate releaseDates ! i, sortReleasesByDate releaseDates ! Suc i)) \<and>
      (\<forall>r \<in> set (createReleaseRanges releaseDates). point_date (snd r) \<le> point_date (fst r)) \<and>
      (\<forall>i. Suc i < length (createReleaseRanges releaseDates) \<longrightarrow>
         snd (createReleaseRanges releaseDates ! i) = fst (createReleaseRanges releaseDates ! Suc i)))"
proof -
  have none: "releaseDates = [] \<longrightarrow> createReleaseRanges releaseDates = []"
    by (simp add: createReleaseRanges_def sortReleasesByDate_def)
  have one: "\<forall>p. releaseDates = [p] \<longrightarrow>
      createReleaseRanges releaseDates = [(p, dateZeroPoint)] \<and>
      point_date dateZeroPoint = 0 \<and> point_id dateZeroPoint = Some 0"
    by (simp add: createReleaseRanges_one dateZeroPoint_def)
  have many: "mset (sortReleasesByDate releaseDates) = mset releaseDates \<and>
      sorted_wrt (\<lambda>a b. point_date b \<le> point_date a) (sortReleasesByDate releaseDates) \<and>
      length (createReleaseRanges releaseDates) = length releaseDates - 1 \<and>
      (\<forall>i < length releaseDates - 1.
         createReleaseRanges releaseDates ! i =
           (sortReleasesByDate releaseDates ! i, sortReleasesByDate releaseDates ! Suc i)) \<and>
      (\<forall>r \<in> set (createReleaseRanges releaseDates). point_date (snd r) \<le> point_date (fst r)) \<and>
      (\<forall>i. Suc i < length (createReleaseRanges releaseDates) \<longrightarrow>
         snd (createReleaseRanges releaseDates ! i) = fst (createReleaseRanges releaseDates ! Suc i))"
    if n: "2 \<le> length releaseDates"
  proof -
    have "\<forall>r \<in> set (createReleaseRanges releaseDates). point_date (snd r) \<le> point_date (fst r)"
      using createReleaseRanges_descending [OF n] by blast
    moreover have "length (createReleaseRanges releaseDates) = length releaseDates - 1"
      using n by (simp add: createReleaseRanges_many)
    moreover have "\<forall>i < length releaseDates - 1.
         createReleaseRanges releaseDates ! i =
           (sortReleasesByDate releaseDates ! i, sortReleasesByDate releaseDates ! Suc i)"
      using n by (simp add: createReleaseRanges_many)
    moreover have "\<forall>i. Suc i < length (createReleaseRanges releaseDates) \<longrightarrow>
         snd (createReleaseRanges releaseDates ! i) = fst (createReleaseRanges releaseDates ! Suc i)"
      using n by (simp add: createReleaseRanges_many)
    ultimately show ?thesis
      using sortReleasesByDate_mset [of releaseDates] sortReleasesByDate_sorted [of releaseDates]
      by blast
  qed
  from none one many show ?thesis
    by blast
qed

text \<open>The three cases on concrete points: none, one, and three given out of order.\<close>

theorem createReleaseRanges_by_count_witness:
  "createReleaseRanges [] = [] \<and>
   createReleaseRanges [pointA] = [(pointA, dateZeroPoint)] \<and>
   length (createReleaseRanges [pointA, pointB, pointC]) = 2 \<and>
   createReleaseRanges [pointA, pointB, pointC] ! 0 = (pointB, pointC) \<and>
   createReleaseRanges [pointA, pointB, pointC] ! 1 = (pointC, pointA)"
  using createReleaseRanges_by_count [of "[]"] createReleaseRanges_by_count [of "[pointA]"]
    createReleaseRanges_by_count [of "[pointA, pointB, pointC]"]
  by (simp add: sortReleasesByDate_def pointA_def pointB_def pointC_def)

subsection \<open>The tag selector\<close>

lemma selectLoop_skip:
  "\<forall>t \<in> set pre. tag_name t \<notin> set selectedTags \<Longrightarrow>
   selectLoop selectedTags (pre @ rest) = selectLoop selectedTags rest"
  by (induction pre) (simp_all add: Let_def)

lemma selectLoop_first_match:
  "tag_name t = n \<Longrightarrow> take 2 (selectLoop [n] (t # u # rest)) = [t, u]"
  by (simp add: Let_def)

lemma getSelectedTags_successor:
  assumes k: "Suc k < length tags"
    and name: "tag_name (tags ! k) = n"
    and first: "\<forall>j<k. tag_name (tags ! j) \<noteq> n"
    and nall: "n \<noteq> ''all''"
  shows "getSelectedTags [n] tags = Some [tags ! k, tags ! Suc k]"
proof -
  have split: "tags = take k tags @ tags ! k # tags ! Suc k # drop (Suc (Suc k)) tags"
    using k by (metis Cons_nth_drop_Suc Suc_lessD append_take_drop_id)
  have "tag_name t \<noteq> n" if tin: "t \<in> set (take k tags)" for t
  proof -
    have "k \<le> length tags"
      using k by simp
    then obtain i where "i < k" "t = tags ! i"
      using tin by (auto simp: in_set_conv_nth)
    then show ?thesis
      using first by blast
  qed
  then have "\<forall>t \<in> set (take k tags). tag_name t \<notin> set [n]"
    by simp
  then have "selectLoop [n] tags = selectLoop [n] (tags ! k # tags ! Suc k # drop (Suc (Suc k)) tags)"
    using selectLoop_skip [of "take k tags" "[n]"] split by metis
  then have "take 2 (selectLoop [n] tags) = [tags ! k, tags ! Suc k]"
    using selectLoop_first_match [OF name] by simp
  then show ?thesis
    using nall by (simp add: getSelectedTags_def)
qed

text \<open>
  Claim C9. For a request that is not empty and does not contain \<^verbatim>\<open>'all'\<close>,
  \<^verbatim>\<open>getSelectedTags\<close> returns at most two tags. For a request of one name \<open>n\<close>: when a tag
  of that name is in the list of all tags, at index \<open>k\<close> (the first of that name, tag names
  being unique in a repository), and the list has a next tag, at index \<open>k + 1\<close>, the result
  is these two tags, the requested one and its successor.
\<close>

theorem getSelectedTags_explicit_request:
  "(''all'' \<notin> set optionTags \<and> optionTags \<noteq> [] \<longrightarrow>
      (\<exists>selected. getSelectedTags optionTags tags = Some selected \<and> length selected \<le> 2)) \<and>
   (\<forall>n k. optionTags = [n] \<and> n \<noteq> ''all'' \<and> Suc k < length tags \<and>
          tag_name (tags ! k) = n \<and> (\<forall>j<k. tag_name (tags ! j) \<noteq> n) \<longrightarrow>
      getSelectedTags optionTags tags = Some [tags ! k, tags ! Suc k])"
proof -
  have "''all'' \<notin> set optionTags \<and> optionTags \<noteq> [] \<longrightarrow>
      (\<exists>selected. getSelectedTags optionTags tags = Some selected \<and> length selected \<le> 2)"
    by (simp add: getSelectedTags_def)
  moreover have "\<forall>n k. optionTags = [n] \<and> n \<noteq> ''all'' \<and> Suc k < length tags \<and>
          tag_name (tags ! k) = n \<and> (\<forall>j<k. tag_name (tags ! j) \<noteq> n) \<longrightarrow>
      getSelectedTags optionTags tags = Some [tags ! k, tags ! Suc k]"
    using getSelectedTags_successor by blast
  ultimately show ?thesis
    by blast
qed

text \<open>One name requested, found in the middle of three tags; and three names requested.\<close>

theorem getSelectedTags_explicit_request_witness:
  "getSelectedTags [''v1.5.0''] [tagA, tagB, tagC] = Some [tagB, tagC] \<and>
   (\<exists>selected. getSelectedTags [''v2.0.0'', ''v1.5.0'', ''v1.0.0''] [tagA, tagB, tagC] = Some selected
      \<and> length selected \<le> 2)"
proof -
  have "getSelectedTags [''v1.5.0''] [tagA, tagB, tagC]
      = Some [[tagA, tagB, tagC] ! Suc 0, [tagA, tagB, tagC] ! Suc (Suc 0)]"
    by (rule getSelectedTags_explicit_request [THEN conjunct2, rule_format, where n = "''v1.5.0''"])
      (simp add: tagA_def tagB_def tagC_def)
  moreover have "\<exists>selected. getSelectedTags [''v2.0.0'', ''v1.5.0'', ''v1.0.0''] [tagA, tagB, tagC]
      = Some selected \<and> length selected \<le> 2"
    using getSelectedTags_explicit_request [of "[''v2.0.0'', ''v1.5.0'', ''v1.0.0'']" "[tagA, tagB, tagC]"]
    by simp
  ultimately show ?thesis
    by simp
qed

subsection \<open>Grouping by label\<close>

lemma map_of_objPush:
  "map_of (objPush key v groups) =
     (map_of groups)(key \<mapsto> (case map_of groups key of None \<Rightarrow> [v] | Some vs \<Rightarrow> vs @ [v]))"
  by (induction groups) (auto simp: fun_eq_iff)

lemma pushNoLabel_empty_iff:
  "issue_labels (pushNoLabel gren issue) = [] \<longleftrightarrow>
     issue_labels issue = [] \<and> \<not> truthyString (tpl_noLabel (opt_template (gren_options gren)))"
  by (auto simp: pushNoLabel_def truthyString_def split: option.splits)

text \<open>With nothing in \<^verbatim>\<open>Array.prototype\<close>, a plain key is filed and nothing else changes; a key
  other than \<^verbatim>\<open>__proto__\<close> leaves \<^verbatim>\<open>Array.prototype\<close> as it is, or throws.\<close>

lemma groupsPush_plain:
  "plainKey l labelName \<Longrightarrow>
   groupsPush l labelName v (groups, []) = Inr (objPush labelName v groups, [])"
  by (simp add: groupsPush_def plainKey_def inheritedElement_def)

lemma groupsPush_keeps_proto:
  assumes "labelName \<noteq> ''__proto__''"
  shows "groupsPush l labelName v (groups, proto) = Inl NotAFunction \<or>
         groupsPush l labelName v (groups, proto) = Inr (objPush labelName v groups, proto)"
  using assms by (simp add: groupsPush_def)

lemma groupsPush_error: "groupsPush l labelName v state = Inl e \<Longrightarrow> e = NotAFunction"
  by (cases state) (auto simp: groupsPush_def split: if_splits)

text \<open>The failure. An issue without a label, with no placeholder, ends the loop with an
  error, unless \<^verbatim>\<open>Array.prototype\<close> has received an element.\<close>

lemma groupByLabelLoop_fails:
  assumes "issue \<in> set issues" and "issue_labels (pushNoLabel gren issue) = []"
    and "\<forall>i \<in> set issues. \<forall>others. issue_labels (pushNoLabel gren i) \<noteq> ''__proto__'' # others"
  shows "groupByLabelLoop l gren issues (groups, []) = Inl TypeError \<or>
         groupByLabelLoop l gren issues (groups, []) = Inl NotAFunction"
  using assms
proof (induction issues arbitrary: groups)
  case Nil
  then show ?case by simp
next
  case (Cons i rest)
  show ?case
  proof (cases "issue_labels (pushNoLabel gren i)")
    case Nil
    then show ?thesis
      by (simp add: firstLabelName_def)
  next
    case (Cons labelName others)
    with Cons.prems have later: "issue \<in> set rest" and name: "labelName \<noteq> ''__proto__''"
      by auto
    from groupsPush_keeps_proto [OF name, of l "templateIssue l gren i" groups "[]"]
    show ?thesis
    proof
      assume "groupsPush l labelName (templateIssue l gren i) (groups, []) = Inl NotAFunction"
      with Cons show ?thesis
        by (simp add: firstLabelName_def)
    next
      assume "groupsPush l labelName (templateIssue l gren i) (groups, [])
          = Inr (objPush labelName (templateIssue l gren i) groups, [])"
      moreover have "groupByLabelLoop l gren rest
            (objPush labelName (templateIssue l gren i) groups, []) = Inl TypeError \<or>
          groupByLabelLoop l gren rest
            (objPush labelName (templateIssue l gren i) groups, []) = Inl NotAFunction"
        using Cons.IH [OF later] Cons.prems(2,3) by simp
      ultimately show ?thesis
        using Cons by (simp add: firstLabelName_def)
    qed
  qed
qed

lemma groupByLabelLoop_fails_plain:
  assumes "issue \<in> set issues" and "issue_labels (pushNoLabel gren issue) = []"
    and "\<forall>i \<in> set issues. \<forall>labelName others.
           issue_labels (pushNoLabel gren i) = labelName # others \<longrightarrow> plainKey l labelName"
  shows "groupByLabelLoop l gren issues (groups, []) = Inl TypeError"
  using assms
proof (induction issues arbitrary: groups)
  case Nil
  then show ?case by simp
next
  case (Cons i rest)
  show ?case
  proof (cases "issue_labels (pushNoLabel gren i)")
    case Nil
    then show ?thesis
      by (simp add: firstLabelName_def)
  next
    case (Cons labelName others)
    with Cons.prems have later: "issue \<in> set rest" and plain: "plainKey l labelName"
      by auto
    have "groupByLabelLoop l gren rest (objPush labelName (templateIssue l gren i) groups, [])
        = Inl TypeError"
      using Cons.IH [OF later] Cons.prems(2,3) by simp
    with Cons show ?thesis
      by (simp add: firstLabelName_def groupsPush_plain [OF plain])
  qed
qed

text \<open>When every issue has a label, the first label is always there to read: the loop never
  ends with the error of reading \<^verbatim>\<open>name\<close> from \<^verbatim>\<open>undefined\<close>.\<close>

lemma groupByLabelLoop_reads_label:
  assumes "\<forall>issue \<in> set issues. issue_labels (pushNoLabel gren issue) \<noteq> []"
  shows "groupByLabelLoop l gren issues state \<noteq> Inl TypeError"
  using assms
proof (induction issues arbitrary: state)
  case Nil
  then show ?case by simp
next
  case (Cons i rest)
  then obtain labelName others where
    labels: "issue_labels (pushNoLabel gren i) = labelName # others"
    by (cases "issue_labels (pushNoLabel gren i)") auto
  show ?case
  proof (cases "groupsPush l labelName (templateIssue l gren i) state")
    case (Inl e)
    then have "e = NotAFunction"
      by (rule groupsPush_error)
    with Inl labels show ?thesis
      by (simp add: firstLabelName_def)
  next
    case (Inr state')
    with Cons labels show ?thesis
      by (simp add: firstLabelName_def)
  qed
qed

text \<open>The loop over labelled issues whose first labels are plain keys.\<close>

lemma groupByLabelLoop_grows:
  assumes "\<forall>i \<in> set issues. \<forall>labelName others.
           issue_labels (pushNoLabel gren i) = labelName # others \<longrightarrow> plainKey l labelName"
    and "groupByLabelLoop l gren issues (groups, []) = Inr (groups', proto')"
    and "map_of groups key = Some items"
  shows "\<exists>items'. map_of groups' key = Some items' \<and> set items \<subseteq> set items'"
  using assms
proof (induction issues arbitrary: groups items)
  case Nil
  then show ?case by simp
next
  case (Cons i rest)
  from Cons.prems(2) obtain labelName others where
    labels: "issue_labels (pushNoLabel gren i) = labelName # others"
    by (cases "issue_labels (pushNoLabel gren i)") (auto simp: firstLabelName_def)
  with Cons.prems(1) have plain: "plainKey l labelName"
    by auto
  from Cons.prems(2) labels have
    rest: "groupByLabelLoop l gren rest (objPush labelName (templateIssue l gren i) groups, [])
      = Inr (groups', proto')"
    by (simp add: firstLabelName_def groupsPush_plain [OF plain])
  have "\<exists>items1. map_of (objPush labelName (templateIssue l gren i) groups) key = Some items1
      \<and> set items \<subseteq> set items1"
    using Cons.prems(3) by (auto simp: map_of_objPush)
  then obtain items1 where
    "map_of (objPush labelName (templateIssue l gren i) groups) key = Some items1"
    and sub: "set items \<subseteq> set items1"
    by blast
  from Cons.IH [OF _ rest this(1)] Cons.prems(1) sub show ?case
    by auto
qed

lemma groupByLabelLoop_succeeds:
  assumes "\<forall>i \<in> set issues. \<forall>labelName others.
           issue_labels (pushNoLabel gren i) = labelName # others \<longrightarrow> plainKey l labelName"
    and "\<forall>issue \<in> set issues. issue_labels (pushNoLabel gren issue) \<noteq> []"
  shows "\<exists>groups'. groupByLabelLoop l gren issues (groups, []) = Inr (groups', []) \<and>
    (\<forall>issue \<in> set issues. \<exists>items.
        map_of groups' (hd (issue_labels (pushNoLabel gren issue))) = Some items \<and>
        templateIssue l gren issue \<in> set items)"
  using assms
proof (induction issues arbitrary: groups)
  case Nil
  then show ?case by simp
next
  case (Cons i rest)
  then obtain labelName others where
    labels: "issue_labels (pushNoLabel gren i) = labelName # others"
    by (cases "issue_labels (pushNoLabel gren i)") auto
  with Cons.prems(1) have plain: "plainKey l labelName"
    by auto
  let ?g = "objPush labelName (templateIssue l gren i) groups"
  have plainRest: "\<forall>i \<in> set rest. \<forall>labelName others.
           issue_labels (pushNoLabel gren i) = labelName # others \<longrightarrow> plainKey l labelName"
    using Cons.prems(1) by simp
  have labelledRest: "\<forall>issue \<in> set rest. issue_labels (pushNoLabel gren issue) \<noteq> []"
    using Cons.prems(2) by simp
  from Cons.IH [OF plainRest labelledRest, of ?g] obtain groups' where
    run: "groupByLabelLoop l gren rest (?g, []) = Inr (groups', [])"
    and others: "\<forall>issue \<in> set rest. \<exists>items.
        map_of groups' (hd (issue_labels (pushNoLabel gren issue))) = Some items \<and>
        templateIssue l gren issue \<in> set items"
    by blast
  have "\<exists>items. map_of ?g labelName = Some items \<and> templateIssue l gren i \<in> set items"
    by (auto simp: map_of_objPush split: option.splits)
  then obtain items where "map_of ?g labelName = Some items" "templateIssue l gren i \<in> set items"
    by blast
  with groupByLabelLoop_grows [OF plainRest run] have
    "\<exists>items. map_of groups' labelName = Some items \<and> templateIssue l gren i \<in> set items"
    by blast
  with run others labels show ?case
    by (simp add: firstLabelName_def groupsPush_plain [OF plain])
qed

text \<open>What a name that is not a plain key does: a first label that names an inherited
  member throws on the first issue, labelled as it is.\<close>

lemma groupByLabel_inherited_label:
  assumes "issue_labels (pushNoLabel gren issue) = labelName # others"
    and "labelName \<in> set arrayMemberNames \<or> labelName \<in> set (lib_arrayMembers l)"
    and "labelName \<noteq> ''__proto__''"
  shows "groupByLabel l gren [] (issue # rest) = Inl NotAFunction"
  using assms by (auto simp: groupByLabel_def firstLabelName_def groupsPush_def)

lemma groupByLabel_label_map:
  assumes "issue_labels (pushNoLabel gren issue) = ''map'' # others"
  shows "groupByLabel l gren [] (issue # rest) = Inl NotAFunction"
  using assms by (rule groupByLabel_inherited_label) (simp_all add: arrayMemberNames_def)

text \<open>
  Claim C10, as amended. \<^verbatim>\<open>groupByLabel\<close> is run with nothing in \<^verbatim>\<open>Array.prototype\<close>. When some
  issue has no label and no \<^verbatim>\<open>noLabel\<close> placeholder is configured, and no issue has
  \<^verbatim>\<open>__proto__\<close> as its first label, \<^verbatim>\<open>groupByLabel\<close> fails; when the first labels are plain keys
  of the array \<^verbatim>\<open>groups\<close> (not \<^verbatim>\<open>__proto__\<close>, not \<^verbatim>\<open>length\<close>, not the name of a member that an
  array inherits), it fails with the \<^verbatim>\<open>TypeError\<close> of \<^verbatim>\<open>issue.labels[0].name\<close>.
  When every issue has a label or the placeholder is configured, that read never fails,
  whatever the labels and \<^verbatim>\<open>Array.prototype\<close> are: every issue has a first label, its group
  key. With plain first labels the loop then ends with its groups, \<^verbatim>\<open>groupByLabel\<close> returns
  their rendering, and the rendering of every issue is filed under its group key.
\<close>

theorem groupByLabel_total_iff_labelled:
  "((\<exists>issue \<in> set issues. issue_labels issue = [] \<and>
        \<not> truthyString (tpl_noLabel (opt_template (gren_options gren)))) \<and>
    (\<forall>issue \<in> set issues. \<forall>others.
        issue_labels (pushNoLabel gren issue) \<noteq> ''__proto__'' # others) \<longrightarrow>
      (groupByLabel l gren [] issues = Inl TypeError \<or>
       groupByLabel l gren [] issues = Inl NotAFunction) \<and>
      ((\<forall>issue \<in> set issues. \<forall>labelName others.
          issue_labels (pushNoLabel gren issue) = labelName # others \<longrightarrow> plainKey l labelName) \<longrightarrow>
        groupByLabel l gren [] issues = Inl TypeError)) \<and>
   ((\<forall>issue \<in> set issues. issue_labels issue \<noteq> [] \<or>
        truthyString (tpl_noLabel (opt_template (gren_options gren)))) \<longrightarrow>
      groupByLabel l gren proto issues \<noteq> Inl TypeError \<and>
      (\<forall>issue \<in> set issues. \<exists>labelName others.
          issue_labels (pushNoLabel gren issue) = labelName # others) \<and>
      ((\<forall>issue \<in> set issues. \<forall>labelName others.
          issue_labels (pushNoLabel gren issue) = labelName # others \<longrightarrow> plainKey l labelName) \<longrightarrow>
        (\<exists>groups. groupByLabelLoop l gren issues ([], []) = Inr (groups, []) \<and>
           groupByLabel l gren [] issues
             = Inr (templateGroups l gren (lib_sortObject l groups), []) \<and>
           (\<forall>issue \<in> set issues. \<exists>labelName others items.
              issue_labels (pushNoLabel gren issue) = labelName # others \<and>
              map_of groups labelName = Some items \<and>
              templateIssue l gren issue \<in> set items))))"
proof (intro conjI impI)
  assume h: "(\<exists>issue \<in> set issues. issue_labels issue = [] \<and>
        \<not> truthyString (tpl_noLabel (opt_template (gren_options gren)))) \<and>
    (\<forall>issue \<in> set issues. \<forall>others.
        issue_labels (pushNoLabel gren issue) \<noteq> ''__proto__'' # others)"
  then obtain issue where "issue \<in> set issues" "issue_labels (pushNoLabel gren issue) = []"
    by (auto simp: pushNoLabel_empty_iff)
  from groupByLabelLoop_fails [OF this, of l "[]"] h
  show "groupByLabel l gren [] issues = Inl TypeError \<or>
       groupByLabel l gren [] issues = Inl NotAFunction"
    by (auto simp: groupByLabel_def)
next
  assume h: "(\<exists>issue \<in> set issues. issue_labels issue = [] \<and>
        \<not> truthyString (tpl_noLabel (opt_template (gren_options gren)))) \<and>
    (\<forall>issue \<in> set issues. \<forall>others.
        issue_labels (pushNoLabel gren issue) \<noteq> ''__proto__'' # others)"
    and plain: "\<forall>issue \<in> set issues. \<forall>labelName others.
          issue_labels (pushNoLabel gren issue) = labelName # others \<longrightarrow> plainKey l labelName"
  from h obtain issue where "issue \<in> set issues" "issue_labels (pushNoLabel gren issue) = []"
    by (auto simp: pushNoLabel_empty_iff)
  from groupByLabelLoop_fails_plain [OF this plain, of "[]"]
  show "groupByLabel l gren [] issues = Inl TypeError"
    by (simp add: groupByLabel_def)
next
  assume "\<forall>issue \<in> set issues. issue_labels issue \<noteq> [] \<or>
        truthyString (tpl_noLabel (opt_template (gren_options gren)))"
  then have labelled: "\<forall>issue \<in> set issues. issue_labels (pushNoLabel gren issue) \<noteq> []"
    by (auto simp: pushNoLabel_empty_iff)
  from groupByLabelLoop_reads_label [OF this, of l "([], proto)"]
  show "groupByLabel l gren proto issues \<noteq> Inl TypeError"
    by (auto simp: groupByLabel_def split: sum.splits)
next
  assume "\<forall>issue \<in> set issues. issue_labels issue \<noteq> [] \<or>
        truthyString (tpl_noLabel (opt_template (gren_options gren)))"
  then have labelled: "\<forall>issue \<in> set issues. issue_labels (pushNoLabel gren issue) \<noteq> []"
    by (auto simp: pushNoLabel_empty_iff)
  show "\<forall>issue \<in> set issues. \<exists>labelName others.
          issue_labels (pushNoLabel gren issue) = labelName # others"
  proof
    fix issue assume "issue \<in> set issues"
    with labelled show "\<exists>labelName others.
          issue_labels (pushNoLabel gren issue) = labelName # others"
      by (cases "issue_labels (pushNoLabel gren issue)") auto
  qed
next
  assume "\<forall>issue \<in> set issues. issue_labels issue \<noteq> [] \<or>
        truthyString (tpl_noLabel (opt_template (gren_options gren)))"
    and plain: "\<forall>issue \<in> set issues. \<forall>labelName others.
          issue_labels (pushNoLabel gren issue) = labelName # others \<longrightarrow> plainKey l labelName"
  then have labelled: "\<forall>issue \<in> set issues. issue_labels (pushNoLabel gren issue) \<noteq> []"
    by (auto simp: pushNoLabel_empty_iff)
  from groupByLabelLoop_succeeds [OF plain labelled, of "[]"] obtain groups where
    run: "groupByLabelLoop l gren issues ([], []) = Inr (groups, [])"
    and keys: "\<forall>issue \<in> set issues. \<exists>items.
        map_of groups (hd (issue_labels (pushNoLabel gren issue))) = Some items \<and>
        templateIssue l gren issue \<in> set items"
    by blast
  have "\<forall>issue \<in> set issues. \<exists>labelName others items.
            issue_labels (pushNoLabel gren issue) = labelName # others \<and>
            map_of groups labelName = Some items \<and>
            templateIssue l gren issue \<in> set items"
  proof
    fix issue assume mem: "issue \<in> set issues"
    with labelled obtain labelName others where
      "issue_labels (pushNoLabel gren issue) = labelName # others"
      by (cases "issue_labels (pushNoLabel gren issue)") auto
    with keys mem show "\<exists>labelName others items.
            issue_labels (pushNoLabel gren issue) = labelName # others \<and>
            map_of groups labelName = Some items \<and>
            templateIssue l gren issue \<in> set items"
      by fastforce
  qed
  with run show "\<exists>groups. groupByLabelLoop l gren issues ([], []) = Inr (groups, []) \<and>
           groupByLabel l gren [] issues
             = Inr (templateGroups l gren (lib_sortObject l groups), []) \<and>
           (\<forall>issue \<in> set issues. \<exists>labelName others items.
              issue_labels (pushNoLabel gren issue) = labelName # others \<and>
              map_of groups labelName = Some items \<and>
              templateIssue l gren issue \<in> set items)"
    by (simp add: groupByLabel_def)
qed

text \<open>The claim as first stated fails: an issue without labels, with no placeholder
  configured, does not make \<^verbatim>\<open>groupByLabel\<close> fail when it comes after an issue whose first
  label is \<^verbatim>\<open>__proto__\<close>. \<^verbatim>\<open>groups['__proto__']\<close> is \<^verbatim>\<open>Array.prototype\<close>, so the rendering of that
  issue is pushed there; \<^verbatim>\<open>issue.labels[0]\<close> of the empty label list is then that string, whose
  \<^verbatim>\<open>name\<close> is \<^verbatim>\<open>undefined\<close>, and the issue is filed under the key \<^verbatim>\<open>undefined\<close>.\<close>

theorem groupByLabel_unlabelled_after_proto_label:
  "issue_labels unlabelledIssue = [] \<and>
   \<not> truthyString (tpl_noLabel (opt_template (gren_options (exampleGren (defaults exampleTemplates))))) \<and>
   groupByLabel exampleLib (exampleGren (defaults exampleTemplates)) [] [protoIssue, unlabelledIssue]
     = Inr ([''## undefined\<newline>* Typo#4u4''], [''* +__proto__Odd#6u6''])"
proof -
  have "groupByLabel exampleLib (exampleGren (defaults exampleTemplates)) []
      [protoIssue, unlabelledIssue]
    = Inr ([''## undefined\<newline>* Typo#4u4''], [''* +__proto__Odd#6u6''])"
    by code_simp
  then show ?thesis
    by (simp add: unlabelledIssue_def exampleGren_def defaults_def exampleTemplates_def
        truthyString_def)
qed

text \<open>A labelled issue followed by one without labels, with no placeholder; and the labelled
  issue alone.\<close>

theorem groupByLabel_total_iff_labelled_witness:
  "groupByLabel exampleLib (exampleGren (defaults exampleTemplates)) [] [exampleIssue, unlabelledIssue]
     = Inl TypeError \<and>
   groupByLabel exampleLib (exampleGren (defaults exampleTemplates)) [] [exampleIssue]
     = Inr ([''## bug\<newline>* +bugCrash#3u3''], [])"
proof -
  have labels: "issue_labels (pushNoLabel (exampleGren (defaults exampleTemplates)) exampleIssue) = [''bug'']"
    "issue_labels (pushNoLabel (exampleGren (defaults exampleTemplates)) unlabelledIssue) = []"
    by (simp_all add: pushNoLabel_def exampleGren_def defaults_def exampleTemplates_def
        exampleIssue_def unlabelledIssue_def)
  have noLabel: "\<not> truthyString (tpl_noLabel (opt_template (gren_options
      (exampleGren (defaults exampleTemplates)))))"
    by (simp add: exampleGren_def defaults_def exampleTemplates_def truthyString_def)
  have plain: "plainKey exampleLib ''bug''"
    by (simp add: plainKey_def arrayMemberNames_def exampleLib_def exampleArrayMembers_def)
  have unlabelled: "issue_labels unlabelledIssue = []" and labelled: "issue_labels exampleIssue \<noteq> []"
    by (simp_all add: unlabelledIssue_def exampleIssue_def)
  have "groupByLabel exampleLib (exampleGren (defaults exampleTemplates)) []
      [exampleIssue, unlabelledIssue] = Inl TypeError"
    using groupByLabel_total_iff_labelled [of "[exampleIssue, unlabelledIssue]"
        "exampleGren (defaults exampleTemplates)" exampleLib "[]"]
      labels noLabel plain unlabelled
    by simp
  moreover have "\<exists>groups.
      groupByLabelLoop exampleLib (exampleGren (defaults exampleTemplates)) [exampleIssue] ([], [])
        = Inr (groups, []) \<and>
      groupByLabel exampleLib (exampleGren (defaults exampleTemplates)) [] [exampleIssue]
        = Inr (templateGroups exampleLib (exampleGren (defaults exampleTemplates))
                 (lib_sortObject exampleLib groups), [])"
    using groupByLabel_total_iff_labelled [of "[exampleIssue]"
        "exampleGren (defaults exampleTemplates)" exampleLib "[]"]
      labels plain labelled
    by simp blast
  moreover have "groupByLabelLoop exampleLib (exampleGren (defaults exampleTemplates))
      [exampleIssue] ([], []) = Inr ([(''bug'', [''* +bugCrash#3u3''])], [])"
    by code_simp
  moreover have "templateGroups exampleLib (exampleGren (defaults exampleTemplates))
      (lib_sortObject exampleLib [(''bug'', [''* +bugCrash#3u3''])])
        = [''## bug\<newline>* +bugCrash#3u3'']"
    by code_simp
  ultimately show ?thesis
    by auto
qed

end
